theory Spec2Isabelle
  imports Main "HOL-Library.Char_ord" "HOL-Library.List_Lexorder"
begin

section \<open>Python values, functions and classes\<close>

text \<open>
  The engine of \<^verbatim>\<open>cli/test.py\<close> works on Python objects by reflection. The
  objects it looks at are modelled by a small closed universe: values (the data a
  \<^verbatim>\<open>disabled\<close> marker takes, and any other object by its \<^verbatim>\<open>str()\<close> and its truth
  value), functions with their source position, and classes as attribute lists. Classes
  nested in classes are outside this universe.
\<close>

datatype pyval = PNone | PBool bool | PInt int | PStr string | PObject string bool

text \<open>Python truth value (\<^verbatim>\<open>if disabled:\<close>).\<close>

fun truthy :: "pyval \<Rightarrow> bool" where
  "truthy PNone = False"
| "truthy (PBool b) = b"
| "truthy (PInt i) = (i \<noteq> 0)"
| "truthy (PStr s) = (s \<noteq> [])"
| "truthy (PObject s b) = b"

text \<open>What a call does: it returns, raises the test case's \<^verbatim>\<open>failureException\<close>
  (an assertion-style failure), or raises any other exception. The string is the
  formatted traceback that \<^verbatim>\<open>unittest\<close> stores for it.\<close>

datatype outcome = Returns | AssertionFailure string | OtherException string

text \<open>A function object. \<open>sourcefile\<close> and \<open>sourceline\<close> are what
  \<^verbatim>\<open>inspect.getsourcefile\<close> and \<^verbatim>\<open>inspect.getsourcelines(...)[1]\<close> give for it,
  \<open>modulename\<close> is \<^verbatim>\<open>inspect.getmodulename\<close> of its source file, \<open>disabled\<close> is
  its \<^verbatim>\<open>disabled\<close> attribute when it has one. The body either is opaque user code with
  an outcome, or is one of the loader's closures, which calls a captured class attribute
  with the arguments \<^verbatim>\<open>(self, self.testmethod)\<close>.

  Class members: a function defined in the class body (seen as a method), a
  \<^verbatim>\<open>staticmethod\<close> wrapper, a \<^verbatim>\<open>property\<close> (the name of its getter and the value the
  getter gives when the attribute is read from an instance as a value; the engine's own
  properties are computed per Case by the functions \<open>lineno\<close>, \<open>filename\<close>, ... below
  and hold an opaque object here), a value that is not callable, or any other callable
  object, for which \<^verbatim>\<open>inspect\<close> has no source (a builtin, a partial object, an instance
  with \<^verbatim>\<open>__call__\<close>), with what a call of it does.\<close>

datatype pyfunc =
  PyFunc (func_name: string) (sourcefile: string) (sourceline: int) (modulename: string)
         (disabled: "pyval option") (code: fbody)
and fbody = Opaque outcome | Forward member
and member =
    Method pyfunc
  | Static pyfunc
  | Prop string pyval
  | Attr pyval
  | Callable string outcome

text \<open>Calling a function. A closure of the loader calls the attribute it read from the
  plain class: a function of the class body is read as an unbound method, and Python 2
  refuses to call an unbound method with an instance of another class (the closure
  passes the synthetic Case); a \<^verbatim>\<open>staticmethod\<close> is read as the function itself.\<close>

fun call :: "pyfunc \<Rightarrow> outcome"
and call_body :: "fbody \<Rightarrow> outcome"
and call_captured :: "member \<Rightarrow> outcome" where
  "call (PyFunc n f l m d b) = call_body b"
| "call_body (Opaque out) = out"
| "call_body (Forward captured) = call_captured captured"
| "call_captured (Method g) = OtherException ''TypeError''"
| "call_captured (Static g) = call g"
| "call_captured (Callable n out) = out"
| "call_captured (Prop g v) = OtherException ''TypeError''"
| "call_captured (Attr v) = OtherException ''TypeError''"

text \<open>\<^verbatim>\<open>callable(getattr(cls, name))\<close>, and \<^verbatim>\<open>isinstance(member, property)\<close>.\<close>

fun callable :: "member \<Rightarrow> bool" where
  "callable (Method f) = True"
| "callable (Static f) = True"
| "callable (Callable n out) = True"
| "callable (Prop g v) = False"
| "callable (Attr v) = False"

fun isproperty :: "member \<Rightarrow> bool" where
  "isproperty (Prop g v) = True"
| "isproperty _ = False"

text \<open>A class: its name, whether it is a subclass of \<^verbatim>\<open>unittest.TestCase\<close>, its own
  namespace (\<^verbatim>\<open>vars(cls).items()\<close>, in iteration order) and the attributes it reaches
  through its bases. Own attributes shadow inherited ones.\<close>

record pyclass =
  cname :: string
  is_unittest :: bool
  own :: "(string \<times> member) list"
  inherited :: "(string \<times> member) list"

definition getattr :: "pyclass \<Rightarrow> string \<Rightarrow> member option" where
  "getattr c n = map_of (own c @ inherited c) n"

definition hasattr :: "pyclass \<Rightarrow> string \<Rightarrow> bool" where
  "hasattr c n = (getattr c n \<noteq> None)"

text \<open>\<^verbatim>\<open>setattr(cls, name, value)\<close> writes the class's own namespace: an existing
  key keeps its place, a new key is added.\<close>

fun assign :: "string \<Rightarrow> member \<Rightarrow> (string \<times> member) list \<Rightarrow> (string \<times> member) list" where
  "assign n v [] = [(n, v)]"
| "assign n v ((k, w) # kvs) = (if k = n then (n, v) # kvs else (k, w) # assign n v kvs)"

definition setattr :: "pyclass \<Rightarrow> string \<Rightarrow> member \<Rightarrow> pyclass" where
  "setattr c n v = c\<lparr>own := assign n v (own c)\<rparr>"

section \<open>Cases\<close>

text \<open>
  A Case is an instance of a test-case class for one method name. The record holds what
  the engine reads from the instance: the function behind \<^verbatim>\<open>self.testmethod\<close>, the
  name of its \<^verbatim>\<open>im_class\<close> when the test method is a bound method (absent when it is
  a wrapped plain function), the instance's own \<^verbatim>\<open>disabled\<close> attribute, and the
  functions behind \<^verbatim>\<open>setUp\<close> and \<^verbatim>\<open>tearDown\<close>.
\<close>

record testcase =
  testMethodName :: string
  testmethod :: pyfunc
  im_class :: "string option"
  case_disabled :: "pyval option"
  setUp :: pyfunc
  tearDown :: pyfunc

definition lineno :: "testcase \<Rightarrow> int" where
  "lineno t = sourceline (testmethod t)"

definition filename :: "testcase \<Rightarrow> string" where
  "filename t = sourcefile (testmethod t)"

definition classname :: "testcase \<Rightarrow> string" where
  "classname t =
     (case im_class t of
        None \<Rightarrow> modulename (testmethod t)
      | Some c \<Rightarrow> modulename (testmethod t) @ ''.'' @ c)"

definition methodname :: "testcase \<Rightarrow> string" where
  "methodname t = func_name (testmethod t)"

section \<open>The Result and its collaborators\<close>

datatype level = Debug | Info | Warning | Error

text \<open>Log records keep the format's arguments instead of the formatted text: the
  status line carries the elapsed time, the status tag and the Case whose file, line,
  class name and method name the format prints.\<close>

datatype logmsg =
    Starting testcase
  | Finished testcase
  | Status int string testcase
  | Ran nat string int
  | Totals nat string nat string nat
  | Examining string
  | Adding string

datatype event =
    StartTest testcase | StopTest testcase
  | RunSetUp testcase | RunBody testcase | RunTearDown testcase

text \<open>
  One state is passed through the run. It holds the collaborator \<^verbatim>\<open>app\<close> (the log
  and the error-output stream, as the list of strings written), the clock
  (\<^verbatim>\<open>default_timer\<close>: the \<open>n\<close>-th reading is \<open>clock n\<close>), the sequence of hook
  and protocol calls made so far, and the fields of the \<^verbatim>\<open>AppTestResult\<close>.
\<close>

record state =
  log :: "(level \<times> logmsg) list"
  stderr :: "string list"
  clock :: "nat \<Rightarrow> int"
  reads :: nat
  calls :: "event list"
  testsRun :: nat
  failures :: "(testcase \<times> string) list"
  errors :: "(testcase \<times> string) list"
  skipped :: "(testcase \<times> pyval) list"
  start :: int
  stop :: int

definition default_timer :: "state \<Rightarrow> int \<times> state" where
  "default_timer s = (clock s (reads s), s\<lparr>reads := Suc (reads s)\<rparr>)"

definition app_log :: "level \<Rightarrow> logmsg \<Rightarrow> state \<Rightarrow> state" where
  "app_log lv m s = s\<lparr>log := log s @ [(lv, m)]\<rparr>"

definition stderr_write :: "string \<Rightarrow> state \<Rightarrow> state" where
  "stderr_write txt s = s\<lparr>stderr := stderr s @ [txt]\<rparr>"

definition record_call :: "event \<Rightarrow> state \<Rightarrow> state" where
  "record_call e s = s\<lparr>calls := calls s @ [e]\<rparr>"

text \<open>\<^verbatim>\<open>AppTestResult.__init__\<close>: a fresh result on the given \<^verbatim>\<open>app\<close>.\<close>

definition AppTestResult :: "state \<Rightarrow> state" where
  "AppTestResult s =
     s\<lparr>testsRun := 0, failures := [], errors := [], skipped := [], start := 0, stop := 0\<rparr>"

text \<open>\<^verbatim>\<open>AppTestResult.time\<close> and \<^verbatim>\<open>status_message\<close>.\<close>

definition time :: "state \<Rightarrow> int" where
  "time s = stop s - start s"

definition status_message :: "testcase \<Rightarrow> string \<Rightarrow> state \<Rightarrow> logmsg" where
  "status_message t status s = Status (time s) status t"

text \<open>The methods of \<^verbatim>\<open>unittest.TestResult\<close> that the class calls or inherits.\<close>

definition TestResult_startTest :: "testcase \<Rightarrow> state \<Rightarrow> state" where
  "TestResult_startTest t s = s\<lparr>testsRun := testsRun s + 1\<rparr>"

definition TestResult_addFailure :: "testcase \<Rightarrow> string \<Rightarrow> state \<Rightarrow> state" where
  "TestResult_addFailure t err s = s\<lparr>failures := failures s @ [(t, err)]\<rparr>"

definition TestResult_addError :: "testcase \<Rightarrow> string \<Rightarrow> state \<Rightarrow> state" where
  "TestResult_addError t err s = s\<lparr>errors := errors s @ [(t, err)]\<rparr>"

definition wasSuccessful :: "state \<Rightarrow> bool" where
  "wasSuccessful s = (length (failures s) = 0 \<and> length (errors s) = 0)"

text \<open>The methods of \<^verbatim>\<open>AppTestResult\<close>.\<close>

definition startTest :: "testcase \<Rightarrow> state \<Rightarrow> state" where
  "startTest t s =
     (let s1 = TestResult_startTest t (record_call (StartTest t) s);
          s2 = app_log Debug (Starting t) s1;
          (now, s3) = default_timer s2
      in s3\<lparr>start := now\<rparr>)"

definition stopTest :: "testcase \<Rightarrow> state \<Rightarrow> state" where
  "stopTest t s = app_log Debug (Finished t) (record_call (StopTest t) s)"

definition addSuccess :: "testcase \<Rightarrow> state \<Rightarrow> state" where
  "addSuccess t s =
     (let (now, s1) = default_timer s;
          s2 = s1\<lparr>stop := now\<rparr>
      in app_log Info (status_message t ''ok'' s2) s2)"

definition addFailure :: "testcase \<Rightarrow> string \<Rightarrow> state \<Rightarrow> state" where
  "addFailure t err s =
     (let (now, s1) = default_timer s;
          s2 = TestResult_addFailure t err (s1\<lparr>stop := now\<rparr>)
      in app_log Warning (status_message t ''fail'' s2) s2)"

text \<open>\<^verbatim>\<open>addError\<close> as written: it calls \<^verbatim>\<open>unittest.TestResult.addFailure\<close>.\<close>

definition addError :: "testcase \<Rightarrow> string \<Rightarrow> state \<Rightarrow> state" where
  "addError t err s =
     (let (now, s1) = default_timer s;
          s2 = TestResult_addFailure t err (s1\<lparr>stop := now\<rparr>)
      in app_log Error (status_message t ''error'' s2) s2)"

definition addSkip :: "testcase \<Rightarrow> pyval \<Rightarrow> state \<Rightarrow> state" where
  "addSkip t message s =
     (let s1 = app_log Info (status_message t ''skip'' s) s
      in s1\<lparr>skipped := skipped s1 @ [(t, message)]\<rparr>)"

section \<open>Running a Case\<close>

text \<open>The skip check of \<^verbatim>\<open>AppTestCase.run\<close> reads
  \<^verbatim>\<open>getattr(self.testmethod, "disabled", getattr(self, "disabled", None))\<close>.\<close>

definition disabled_marker :: "testcase \<Rightarrow> pyval" where
  "disabled_marker t =
     (case disabled (testmethod t) of
        Some v \<Rightarrow> v
      | None \<Rightarrow> (case case_disabled t of Some v \<Rightarrow> v | None \<Rightarrow> PNone))"

text \<open>
  \<^verbatim>\<open>unittest.TestCase.run\<close>, the standard protocol the source delegates to:
  \<^verbatim>\<open>startTest\<close>; \<^verbatim>\<open>setUp\<close>, whose exception is an error and ends the run; the
  test method, whose \<^verbatim>\<open>failureException\<close> is a failure and whose other exceptions are
  errors; \<^verbatim>\<open>tearDown\<close>, whose exception is an error; \<^verbatim>\<open>addSuccess\<close> when nothing
  was raised; and \<^verbatim>\<open>stopTest\<close> in every case. The engine always passes its Result;
  \<^verbatim>\<open>KeyboardInterrupt\<close> is not modelled.
\<close>

definition TestCase_run :: "testcase \<Rightarrow> state \<Rightarrow> state" where
  "TestCase_run t s =
     (let s1 = startTest t s;
          s2 = record_call (RunSetUp t) s1
      in case call (setUp t) of
           AssertionFailure tb \<Rightarrow> stopTest t (addError t tb s2)
         | OtherException tb \<Rightarrow> stopTest t (addError t tb s2)
         | Returns \<Rightarrow>
             (let s3 = record_call (RunBody t) s2;
                  (ok, s4) = (case call (testmethod t) of
                                Returns \<Rightarrow> (True, s3)
                              | AssertionFailure tb \<Rightarrow> (False, addFailure t tb s3)
                              | OtherException tb \<Rightarrow> (False, addError t tb s3));
                  s5 = record_call (RunTearDown t) s4;
                  (ok', s6) = (case call (tearDown t) of
                                 Returns \<Rightarrow> (ok, s5)
                               | AssertionFailure tb \<Rightarrow> (False, addError t tb s5)
                               | OtherException tb \<Rightarrow> (False, addError t tb s5));
                  s7 = (if ok' then addSuccess t s6 else s6)
              in stopTest t s7))"

text \<open>\<^verbatim>\<open>AppTestCase.run\<close>.\<close>

definition run :: "testcase \<Rightarrow> state \<Rightarrow> state" where
  "run t s =
     (let d = disabled_marker t
      in if truthy d then addSkip t d s else TestCase_run t s)"

text \<open>A Suite holds Cases and nested Suites in insertion order;
  \<^verbatim>\<open>unittest.TestSuite.run\<close> calls each in turn with the Result (\<^verbatim>\<open>shouldStop\<close> is
  never set by the engine and is left out).\<close>

datatype test = Case testcase | Suite "test list"

fun run_test :: "test \<Rightarrow> state \<Rightarrow> state" where
  "run_test (Case t) s = run t s"
| "run_test (Suite ts) s = fold run_test ts s"

fun cases_of :: "test \<Rightarrow> testcase list" where
  "cases_of (Case t) = [t]"
| "cases_of (Suite ts) = concat (map cases_of ts)"

section \<open>The Runner\<close>

definition NL :: string where
  "NL = [CHR 0x0A]"

definition TAB :: string where
  "TAB = [CHR 0x09]"

text \<open>\<^verbatim>\<open>str.upper\<close> on ASCII text.\<close>

definition upper_char :: "char \<Rightarrow> char" where
  "upper_char c =
     (if CHR ''a'' \<le> c \<and> c \<le> CHR ''z'' then char_of (of_char c - (32::nat)) else c)"

definition upper :: "string \<Rightarrow> string" where
  "upper txt = map upper_char txt"

text \<open>The conversions \<^verbatim>\<open>%d\<close> and \<^verbatim>\<open>%s\<close>.\<close>

definition digit :: "nat \<Rightarrow> char" where
  "digit n = char_of (48 + n)"

function str_nat :: "nat \<Rightarrow> string" where
  "str_nat n = (if n < 10 then [digit n] else str_nat (n div 10) @ [digit (n mod 10)])"
  by pat_completeness auto
termination
  by (relation "measure id") auto

declare str_nat.simps [simp del]

definition str_int :: "int \<Rightarrow> string" where
  "str_int i = (if i < 0 then CHR ''-'' # str_nat (nat (- i)) else str_nat (nat i))"

fun py_str :: "pyval \<Rightarrow> string" where
  "py_str PNone = ''None''"
| "py_str (PBool b) = (if b then ''True'' else ''False'')"
| "py_str (PInt i) = str_int i"
| "py_str (PStr txt) = txt"
| "py_str (PObject txt b) = txt"

text \<open>\<^verbatim>\<open>plural\<close>, as \<^verbatim>\<open>test-framework.py\<close> defines it.\<close>

definition plural :: "nat \<Rightarrow> string" where
  "plural n = (if n \<noteq> 1 then ''s'' else [])"

definition rule70 :: "char \<Rightarrow> string" where
  "rule70 c = replicate 70 c"

text \<open>The three loops of the detail report.\<close>

fun write_skipped :: "(testcase \<times> pyval) list \<Rightarrow> state \<Rightarrow> state" where
  "write_skipped [] s = s"
| "write_skipped ((t, message) # rest) s =
     (let s1 = stderr_write (rule70 CHR ''-'' @ NL) s;
          s2 = stderr_write (classname t @ ''.'' @ methodname t @ '':'' @ NL) s1;
          s3 = stderr_write (''    file:'' @ TAB @ filename t @ '':'' @ str_int (lineno t) @ NL) s2;
          s4 = stderr_write (''    reason:'' @ TAB @ py_str message) s3;
          s5 = stderr_write NL s4
      in write_skipped rest s5)"

fun write_traces :: "(testcase \<times> string) list \<Rightarrow> state \<Rightarrow> state" where
  "write_traces [] s = s"
| "write_traces ((t, traceback) # rest) s =
     (let s1 = stderr_write (rule70 CHR ''-'' @ NL) s;
          s2 = stderr_write (filename t @ '':'' @ str_int (lineno t) @ NL @ NL) s1;
          s3 = stderr_write traceback s2;
          s4 = stderr_write NL s3
      in write_traces rest s4)"

definition write_header :: "string \<Rightarrow> state \<Rightarrow> state" where
  "write_header title s =
     stderr_write (upper (title @ NL)) (stderr_write (NL @ rule70 CHR ''='' @ NL) s)"

text \<open>\<^verbatim>\<open>AppTestRunner.run\<close>; \<^verbatim>\<open>timer\<close> reads the clock before and after the
  Suite runs.\<close>

definition AppTestRunner_run :: "test \<Rightarrow> state \<Rightarrow> state" where
  "AppTestRunner_run tst s =
     (let result = AppTestResult s;
          (t0, r0) = default_timer result;
          r1 = run_test tst r0;
          (t1, r2) = default_timer r1;
          tests = testsRun r2;
          r3 = app_log Info (Ran tests (plural tests) (t1 - t0)) r2
      in if \<not> wasSuccessful r3 \<or> skipped r3 \<noteq> [] then
           (let failed = length (failures r3);
                errored = length (errors r3);
                nskipped = length (skipped r3);
                r4 = app_log Error (Totals failed (plural failed) errored (plural errored) nskipped) r3;
                r5 = (if skipped r4 \<noteq> []
                      then write_skipped (skipped r4) (write_header ''Skipped:'' r4) else r4);
                r6 = (if errors r5 \<noteq> []
                      then write_traces (errors r5) (write_header ''Errors:'' r5) else r5);
                r7 = (if failures r6 \<noteq> []
                      then write_traces (failures r6) (write_header ''Failures:'' r6) else r6)
            in r7)
         else r3)"

section \<open>The Loader\<close>

text \<open>The exceptions discovery can raise, as values.\<close>

datatype error =
    AttributeError string
  | TypeError string
  | ValueError string
  | ImportError string

text \<open>The class attributes of \<^verbatim>\<open>AppTestLoader\<close> and \<^verbatim>\<open>AppTestCase\<close>.\<close>

definition ignore_dirs :: string where
  "ignore_dirs = ''.''"

definition module_extension :: string where
  "module_extension = ''.py''"

definition module_prefix :: string where
  "module_prefix = ''test_''"

definition module_suffix :: string where
  "module_suffix = ''_test''"

definition func_prefix :: string where
  "func_prefix = ''test_''"

definition class_prefix :: string where
  "class_prefix = ''Test''"

definition testMethodPrefix :: string where
  "testMethodPrefix = func_prefix"

definition overridden_methods :: "string list" where
  "overridden_methods = [''run'']"

subsection \<open>String and path helpers of the standard library\<close>

definition startswith :: "string \<Rightarrow> string \<Rightarrow> bool" where
  "startswith txt p = (take (length p) txt = p)"

definition endswith :: "string \<Rightarrow> string \<Rightarrow> bool" where
  "endswith txt p = (length p \<le> length txt \<and> drop (length txt - length p) txt = p)"

text \<open>\<^verbatim>\<open>str.rfind\<close> for one character: the last index, or \<open>-1\<close>.\<close>

fun rfind_from :: "char \<Rightarrow> string \<Rightarrow> int \<Rightarrow> int \<Rightarrow> int" where
  "rfind_from c [] i found = found"
| "rfind_from c (x # xs) i found = rfind_from c xs (i + 1) (if x = c then i else found)"

definition rfind :: "string \<Rightarrow> char \<Rightarrow> int" where
  "rfind p c = rfind_from c p 0 (-1)"

text \<open>\<^verbatim>\<open>os.path.splitext\<close>: the extension starts at the last dot, unless that dot is
  not after the last separator or only dots precede it in the file name.\<close>

definition splitext :: "string \<Rightarrow> string \<times> string" where
  "splitext p =
     (let sepIndex = rfind p CHR ''/'';
          dotIndex = rfind p CHR ''.''
      in if dotIndex > sepIndex
            \<and> list_ex (\<lambda>c. c \<noteq> CHR ''.'')
                 (take (nat (dotIndex - (sepIndex + 1))) (drop (nat (sepIndex + 1)) p))
         then (take (nat dotIndex) p, drop (nat dotIndex) p)
         else (p, []))"

text \<open>\<^verbatim>\<open>os.path.join\<close> of two components.\<close>

definition path_join :: "string \<Rightarrow> string \<Rightarrow> string" where
  "path_join a b =
     (if startswith b ''/'' then b
      else if a = [] \<or> endswith a ''/'' then a @ b
      else a @ ''/'' @ b)"

subsection \<open>Candidate files\<close>

text \<open>The filter of \<^verbatim>\<open>loadTestsFromDirectory\<close>, with Python's precedence:
  \<^verbatim>\<open>A and B or C\<close> is \<^verbatim>\<open>(A and B) or C\<close>.\<close>

definition is_candidate :: "string \<Rightarrow> bool" where
  "is_candidate x =
     (case splitext x of
        (base, ext) \<Rightarrow>
          (ext = module_extension \<and> startswith base module_prefix)
          \<or> endswith base module_suffix)"

definition candidates :: "string list \<Rightarrow> string list" where
  "candidates filenames = filter is_candidate filenames"

subsection \<open>Test-case classes\<close>

text \<open>The members of \<^verbatim>\<open>unittest.TestCase\<close> the engine touches (its assertion helpers
  are left out), and \<^verbatim>\<open>AppTestCase\<close> with the members of its class body. The
  behaviour of \<^verbatim>\<open>run\<close> is the function \<open>run\<close> above; here only the member and its
  position count.\<close>

definition library_method :: "string \<Rightarrow> int \<Rightarrow> pyfunc" where
  "library_method n l = PyFunc n ''unittest.py'' l ''unittest'' None (Opaque Returns)"

definition unittest_TestCase :: pyclass where
  "unittest_TestCase =
     \<lparr>cname = ''TestCase'', is_unittest = True,
      own = [(''__module__'', Attr (PStr ''unittest'')),
             (''__doc__'', Attr (PStr ''A class whose instances are single test cases.'')),
             (''failureException'', Callable ''AssertionError'' Returns),
             (''__init__'', Method (library_method ''__init__'' 1)),
             (''setUp'', Method (library_method ''setUp'' 2)),
             (''tearDown'', Method (library_method ''tearDown'' 3)),
             (''countTestCases'', Method (library_method ''countTestCases'' 4)),
             (''defaultTestResult'', Method (library_method ''defaultTestResult'' 5)),
             (''shortDescription'', Method (library_method ''shortDescription'' 6)),
             (''id'', Method (library_method ''id'' 7)),
             (''run'', Method (library_method ''run'' 8)),
             (''__call__'', Method (library_method ''__call__'' 9)),
             (''debug'', Method (library_method ''debug'' 10))],
      inherited = []\<rparr>"

definition AppTestCase :: pyclass where
  "AppTestCase =
     \<lparr>cname = ''AppTestCase'', is_unittest = True,
      own = [(''__module__'', Attr (PStr ''cli.test'')),
             (''overridden_methods'', Attr (PObject ''[run]'' True)),
             (''testmethod'', Prop ''testmethod'' (PObject ''testmethod'' True)),
             (''lineno'', Prop ''lineno'' (PObject ''lineno'' True)),
             (''filename'', Prop ''filename'' (PObject ''filename'' True)),
             (''module'', Prop ''module'' (PObject ''module'' True)),
             (''classname'', Prop ''classname'' (PObject ''classname'' True)),
             (''methodname'', Prop ''methodname'' (PObject ''methodname'' True)),
             (''run'', Method (PyFunc ''run'' ''cli/test.py'' 81 ''test'' None (Opaque Returns)))],
      inherited = own unittest_TestCase\<rparr>"

definition testcase_factory :: pyclass where
  "testcase_factory = AppTestCase"

text \<open>A class statement with a docstring as its body, deriving from one base.\<close>

definition new_class :: "string \<Rightarrow> string \<Rightarrow> pyclass \<Rightarrow> pyclass" where
  "new_class n doc base =
     \<lparr>cname = n, is_unittest = is_unittest base,
      own = [(''__module__'', Attr (PStr ''cli.test'')), (''__doc__'', Attr (PStr doc))],
      inherited = own base @ inherited base\<rparr>"

text \<open>The function \<^verbatim>\<open>inspect\<close> finds behind a member: methods and functions have a
  source position, other objects make \<^verbatim>\<open>inspect.getsourcefile\<close> raise.\<close>

fun func_of :: "member \<Rightarrow> pyfunc option" where
  "func_of (Method f) = Some f"
| "func_of (Static f) = Some f"
| "func_of (Callable n out) = None"
| "func_of (Prop g v) = None"
| "func_of (Attr v) = None"

text \<open>\<^verbatim>\<open>wrap_function\<close>.\<close>

definition wrap_function :: "pyclass \<Rightarrow> pyfunc \<Rightarrow> string \<Rightarrow> pyclass" where
  "wrap_function tc function name =
     (let name' = (if name = [] then func_name function else name)
      in setattr tc name' (Static function))"

text \<open>\<^verbatim>\<open>loadTestCaseFromUnittest\<close>, as the change it makes to the namespace of the
  class it is given.\<close>

definition transport :: "string \<times> member \<Rightarrow> pyclass \<Rightarrow> pyclass" where
  "transport nm c =
     (if isproperty (snd nm) \<or> fst nm \<in> set overridden_methods
      then setattr c (fst nm) (snd nm) else c)"

definition loadTestCaseFromUnittest :: "pyclass \<Rightarrow> pyclass" where
  "loadTestCaseFromUnittest u = fold transport (own testcase_factory) u"

text \<open>The same function on a store of class objects: the argument and the result are
  references, and each \<^verbatim>\<open>setattr\<close> writes the object the reference points to.\<close>

definition transport_at :: "nat \<Rightarrow> string \<times> member \<Rightarrow> (nat \<Rightarrow> pyclass) \<Rightarrow> (nat \<Rightarrow> pyclass)" where
  "transport_at a nm h =
     (if isproperty (snd nm) \<or> fst nm \<in> set overridden_methods
      then h(a := setattr (h a) (fst nm) (snd nm)) else h)"

definition loadTestCaseFromUnittest_ref ::
    "(nat \<Rightarrow> pyclass) \<Rightarrow> nat \<Rightarrow> nat \<times> (nat \<Rightarrow> pyclass)" where
  "loadTestCaseFromUnittest_ref h a = (a, fold (transport_at a) (own testcase_factory) h)"

text \<open>\<^verbatim>\<open>loadTestCaseFromTestClass\<close>. The two closures are functions of the loader's own
  source file (lines 283 and 287) that call the captured attribute. Both captured
  attributes are read from the name \<^verbatim>\<open>setup_method\<close>, as in the source.\<close>

definition closure :: "string \<Rightarrow> int \<Rightarrow> member \<Rightarrow> pyfunc" where
  "closure n l captured = PyFunc n ''cli/test.py'' l ''test'' None (Forward captured)"

definition copy_member :: "string \<times> member \<Rightarrow> pyclass \<Rightarrow> pyclass" where
  "copy_member nm c = (if \<not> hasattr c (fst nm) then setattr c (fst nm) (snd nm) else c)"

text \<open>\<^verbatim>\<open>getattr(cls, name, None)\<close> when the result is callable.\<close>

definition callable_attr :: "pyclass \<Rightarrow> string \<Rightarrow> member option" where
  "callable_attr c n =
     (case getattr c n of
        None \<Rightarrow> None
      | Some m \<Rightarrow> (if callable m then Some m else None))"

definition loadTestCaseFromTestClass :: "pyclass \<Rightarrow> pyclass" where
  "loadTestCaseFromTestClass cls =
     (let PlainTestCase = new_class ''PlainTestCase'' ''To collect plain class-based tests.''
                            testcase_factory;
          c1 = fold copy_member (own cls) PlainTestCase;
          setup_method = callable_attr cls ''setup_method'';
          teardown_method = callable_attr cls ''setup_method'';
          c2 = (case setup_method of
                  Some f \<Rightarrow> setattr c1 ''setUp'' (Method (closure ''setUp'' 283 f))
                | None \<Rightarrow> c1);
          c3 = (case teardown_method of
                  Some f \<Rightarrow> setattr c2 ''tearDown'' (Method (closure ''tearDown'' 287 f))
                | None \<Rightarrow> c2)
      in c3\<lparr>cname := cname cls\<rparr>)"

text \<open>Module namespaces: \<^verbatim>\<open>vars(module).items()\<close>, in iteration order. A function found
  in a module's namespace is taken to be defined there (\<^verbatim>\<open>inspect.getmodule\<close>), and a
  \<^verbatim>\<open>setup_class\<close> or \<^verbatim>\<open>teardown_class\<close> hook is used when it is a function.\<close>

datatype modobj = Function pyfunc | Class pyclass | Other pyval

type_synonym pymodule = "(string \<times> modobj) list"

definition module_function :: "pymodule \<Rightarrow> string \<Rightarrow> pyfunc option" where
  "module_function m n = (case map_of m n of Some (Function f) \<Rightarrow> Some f | _ \<Rightarrow> None)"

definition loadTestCaseFromFunction :: "pymodule \<Rightarrow> pyfunc \<Rightarrow> pyclass" where
  "loadTestCaseFromFunction m function =
     (let FunctionTestCase = new_class ''FunctionTestCase'' ''To collect module-level tests.''
                               testcase_factory;
          c1 = wrap_function FunctionTestCase function [];
          setup_class = module_function m ''setup_class'';
          teardown_class = module_function m ''teardown_class'';
          c2 = (case setup_class of Some f \<Rightarrow> wrap_function c1 f ''setUp'' | None \<Rightarrow> c1);
          c3 = (case teardown_class of Some f \<Rightarrow> wrap_function c2 f ''tearDown'' | None \<Rightarrow> c2)
      in c3)"

subsection \<open>Test names and their order\<close>

text \<open>\<^verbatim>\<open>dir(cls)\<close>: the attribute names, each once, in alphabetical order.\<close>

definition dir_names :: "pyclass \<Rightarrow> string list" where
  "dir_names c = sort (remdups (map fst (own c @ inherited c)))"

text \<open>\<^verbatim>\<open>unittest.TestLoader.getTestCaseNames\<close>: the names with the test prefix whose
  attribute is callable; \<^verbatim>\<open>sortTestMethodsUsing\<close> is \<^verbatim>\<open>None\<close>, so it does not sort.\<close>

definition isTestMethod :: "pyclass \<Rightarrow> string \<Rightarrow> bool" where
  "isTestMethod c attrname =
     (startswith attrname testMethodPrefix
      \<and> (case getattr c attrname of None \<Rightarrow> False | Some m \<Rightarrow> callable m))"

definition TestLoader_getTestCaseNames :: "pyclass \<Rightarrow> string list" where
  "TestLoader_getTestCaseNames c = filter (isTestMethod c) (dir_names c)"

text \<open>Python's \<^verbatim>\<open>cmp\<close>.\<close>

definition cmp :: "'a::linorder \<Rightarrow> 'a \<Rightarrow> int" where
  "cmp x y = (if x < y then -1 else if x = y then 0 else 1)"

text \<open>\<^verbatim>\<open>sort_methods\<close>: \<^verbatim>\<open>getattr\<close> raises for a missing name, \<^verbatim>\<open>inspect\<close> raises
  for an object that is not a function.\<close>

definition resolve :: "pyclass \<Rightarrow> string \<Rightarrow> error + pyfunc" where
  "resolve c n =
     (case getattr c n of
        None \<Rightarrow> Inl (AttributeError n)
      | Some m \<Rightarrow> (case func_of m of None \<Rightarrow> Inl (TypeError n) | Some f \<Rightarrow> Inr f))"

definition sort_methods :: "pyclass \<Rightarrow> string \<Rightarrow> string \<Rightarrow> error + int" where
  "sort_methods c x y =
     (case resolve c x of
        Inl e \<Rightarrow> Inl e
      | Inr f \<Rightarrow>
          (case resolve c y of
             Inl e \<Rightarrow> Inl e
           | Inr g \<Rightarrow>
               Inr (if sourcefile f = sourcefile g
                    then cmp (sourceline f) (sourceline g)
                    else cmp (sourcefile f) (sourcefile g))))"

text \<open>\<^verbatim>\<open>list.sort(cmpfunc)\<close> is a stable sort; an exception of the comparison function
  ends it. It is modelled by a stable insertion sort.\<close>

fun insort_by :: "('a \<Rightarrow> 'a \<Rightarrow> error + int) \<Rightarrow> 'a \<Rightarrow> 'a list \<Rightarrow> error + 'a list" where
  "insort_by c x [] = Inr [x]"
| "insort_by c x (y # ys) =
     (case c x y of
        Inl e \<Rightarrow> Inl e
      | Inr k \<Rightarrow>
          if k \<le> 0 then Inr (x # y # ys)
          else (case insort_by c x ys of Inl e \<Rightarrow> Inl e | Inr zs \<Rightarrow> Inr (y # zs)))"

fun sort_by :: "('a \<Rightarrow> 'a \<Rightarrow> error + int) \<Rightarrow> 'a list \<Rightarrow> error + 'a list" where
  "sort_by c [] = Inr []"
| "sort_by c (x # xs) =
     (case sort_by c xs of Inl e \<Rightarrow> Inl e | Inr ys \<Rightarrow> insort_by c x ys)"

definition getTestCaseNames :: "pyclass \<Rightarrow> error + string list" where
  "getTestCaseNames testCaseClass =
     sort_by (sort_methods testCaseClass) (TestLoader_getTestCaseNames testCaseClass)"

subsection \<open>From classes to Suites\<close>

text \<open>Applying a function that may raise to every element of a list, in order.\<close>

fun map_each :: "('a \<Rightarrow> error + 'b) \<Rightarrow> 'a list \<Rightarrow> error + 'b list" where
  "map_each f [] = Inr []"
| "map_each f (x # xs) =
     (case f x of
        Inl e \<Rightarrow> Inl e
      | Inr y \<Rightarrow> (case map_each f xs of Inl e \<Rightarrow> Inl e | Inr ys \<Rightarrow> Inr (y # ys)))"

text \<open>What calling the attribute \<open>n\<close> of an instance runs: the function of a method
  or \<^verbatim>\<open>staticmethod\<close>, the callable object itself, and an exception for a missing
  attribute or one whose value cannot be called.\<close>

definition raising :: "string \<Rightarrow> string \<Rightarrow> pyfunc" where
  "raising n exc = PyFunc n [] 0 [] None (Opaque (OtherException exc))"

definition hook :: "pyclass \<Rightarrow> string \<Rightarrow> pyfunc" where
  "hook c n =
     (case getattr c n of
        None \<Rightarrow> raising n ''AttributeError''
      | Some (Method f) \<Rightarrow> f
      | Some (Static f) \<Rightarrow> f
      | Some (Callable k out) \<Rightarrow> PyFunc k [] 0 [] None (Opaque out)
      | Some (Prop g v) \<Rightarrow> raising n ''TypeError''
      | Some (Attr v) \<Rightarrow> raising n ''TypeError'')"

text \<open>\<^verbatim>\<open>getattr(self, "disabled", None)\<close> on an instance: a datum is read as it is, a
  property gives its getter's value, and a method, function or other callable object is
  an object that is true (its \<^verbatim>\<open>str()\<close>, which holds a memory address, is
  abbreviated).\<close>

definition instance_disabled :: "pyclass \<Rightarrow> pyval option" where
  "instance_disabled c =
     (case getattr c ''disabled'' of
        None \<Rightarrow> None
      | Some (Attr v) \<Rightarrow> Some v
      | Some (Prop g v) \<Rightarrow> Some v
      | Some (Method f) \<Rightarrow> Some (PObject (''<bound method '' @ cname c @ ''.'' @ func_name f @ ''>'') True)
      | Some (Static f) \<Rightarrow> Some (PObject (''<function '' @ func_name f @ ''>'') True)
      | Some (Callable k out) \<Rightarrow> Some (PObject k True))"

text \<open>\<^verbatim>\<open>testCaseClass(name)\<close>: \<^verbatim>\<open>TestCase.__init__\<close> raises \<^verbatim>\<open>ValueError\<close> for a
  missing method. A method defined in a class body is seen bound, with the instance's
  class as \<^verbatim>\<open>im_class\<close>; a \<^verbatim>\<open>staticmethod\<close> is seen as the plain function. A test
  attribute that is not a function has no source position: Python builds the Case and
  fails when the Result first formats its status line; the model refuses it here.\<close>

definition instantiate :: "pyclass \<Rightarrow> string \<Rightarrow> error + testcase" where
  "instantiate c n =
     (case getattr c n of
        None \<Rightarrow> Inl (ValueError n)
      | Some (Method f) \<Rightarrow>
          Inr \<lparr>testMethodName = n, testmethod = f, im_class = Some (cname c),
               case_disabled = instance_disabled c,
               setUp = hook c ''setUp'', tearDown = hook c ''tearDown''\<rparr>
      | Some (Static f) \<Rightarrow>
          Inr \<lparr>testMethodName = n, testmethod = f, im_class = None,
               case_disabled = instance_disabled c,
               setUp = hook c ''setUp'', tearDown = hook c ''tearDown''\<rparr>
      | Some _ \<Rightarrow> Inl (TypeError n))"

text \<open>\<^verbatim>\<open>unittest.TestLoader.loadTestsFromTestCase\<close>, with the overridden
  \<^verbatim>\<open>getTestCaseNames\<close>.\<close>

definition loadTestsFromTestCase :: "pyclass \<Rightarrow> error + test" where
  "loadTestsFromTestCase testCaseClass =
     (case getTestCaseNames testCaseClass of
        Inl e \<Rightarrow> Inl e
      | Inr names \<Rightarrow>
          (let testCaseNames =
                 (if names = [] \<and> hasattr testCaseClass ''runTest'' then [''runTest''] else names)
           in case map_each (instantiate testCaseClass) testCaseNames of
                Inl e \<Rightarrow> Inl e
              | Inr cs \<Rightarrow> Inr (Suite (map Case cs))))"

text \<open>\<^verbatim>\<open>loadTestsFromModule\<close>.\<close>

definition module_functions :: "pymodule \<Rightarrow> pyfunc list" where
  "module_functions m =
     concat (map (\<lambda>(name, obj). case obj of
                    Function f \<Rightarrow> (if startswith name func_prefix then [f] else [])
                  | _ \<Rightarrow> []) m)"

definition module_unittests :: "pymodule \<Rightarrow> pyclass list" where
  "module_unittests m =
     concat (map (\<lambda>(name, obj). case obj of
                    Class c \<Rightarrow> (if is_unittest c then [c] else [])
                  | _ \<Rightarrow> []) m)"

definition module_classes :: "pymodule \<Rightarrow> pyclass list" where
  "module_classes m =
     concat (map (\<lambda>(name, obj). case obj of
                    Class c \<Rightarrow> (if \<not> is_unittest c \<and> startswith name class_prefix then [c] else [])
                  | _ \<Rightarrow> []) m)"

definition loadTestsFromModule :: "pymodule \<Rightarrow> error + test list" where
  "loadTestsFromModule m =
     (let functions = map (loadTestCaseFromFunction m) (module_functions m);
          unittests = map loadTestCaseFromUnittest (module_unittests m);
          classes = map loadTestCaseFromTestClass (module_classes m);
          tests = unittests @ classes @ functions
      in map_each loadTestsFromTestCase tests)"

text \<open>\<^verbatim>\<open>loadTestsFromFile\<close>. The import is a parameter: the module a path imports, or
  nothing when the import raises.\<close>

definition loadTestsFromFile :: "(string \<Rightarrow> pymodule option) \<Rightarrow> string \<Rightarrow> error + test list" where
  "loadTestsFromFile importer fname =
     (case importer fname of
        None \<Rightarrow> Inl (ImportError fname)
      | Some m \<Rightarrow> loadTestsFromModule m)"

text \<open>\<^verbatim>\<open>loadTestsFromDirectory\<close>. The walk is what \<^verbatim>\<open>os.walk(root)\<close> yields: triples
  of a directory path, its subdirectory names and its file names. The trimmed list of
  directory names is bound to a local name and not used again. The tests of each
  candidate are added to the Suite in turn; an exception ends the loading.\<close>

fun load_candidates ::
    "(string \<Rightarrow> pymodule option) \<Rightarrow> string \<Rightarrow> string list \<Rightarrow> test list \<Rightarrow> state
     \<Rightarrow> (error + test list) \<times> state" where
  "load_candidates importer dirpath [] suite s = (Inr suite, s)"
| "load_candidates importer dirpath (candidate # rest) suite s =
     (let fullpath = path_join dirpath candidate;
          s1 = app_log Debug (Adding fullpath) s
      in case loadTestsFromFile importer fullpath of
           Inl e \<Rightarrow> (Inl e, s1)
         | Inr tests \<Rightarrow> load_candidates importer dirpath rest (suite @ tests) s1)"

fun walk_directories ::
    "(string \<Rightarrow> pymodule option) \<Rightarrow> (string \<times> string list \<times> string list) list \<Rightarrow> test list
     \<Rightarrow> state \<Rightarrow> (error + test list) \<times> state" where
  "walk_directories importer [] suite s = (Inr suite, s)"
| "walk_directories importer ((dirpath, dirnames, filenames) # rest) suite s =
     (let trimmed = filter (\<lambda>x. \<not> startswith x ignore_dirs) dirnames
      in case load_candidates importer dirpath (candidates filenames) suite s of
           (Inl e, s1) \<Rightarrow> (Inl e, s1)
         | (Inr suite1, s1) \<Rightarrow> walk_directories importer rest suite1 s1)"

definition loadTestsFromDirectory ::
    "(string \<Rightarrow> pymodule option) \<Rightarrow> string \<Rightarrow> (string \<times> string list \<times> string list) list
     \<Rightarrow> state \<Rightarrow> (error + test) \<times> state" where
  "loadTestsFromDirectory importer root walk s =
     (case walk_directories importer walk [] (app_log Debug (Examining root) s) of
        (Inl e, s1) \<Rightarrow> (Inl e, s1)
      | (Inr suite, s1) \<Rightarrow> (Inr (Suite suite), s1))"

text \<open>The command \<^verbatim>\<open>test\<close>: the tests of the discovered Suite are added, in
  its order, to a new Suite, which the Runner runs.\<close>

fun tests_of :: "test \<Rightarrow> test list" where
  "tests_of (Suite ts) = ts"
| "tests_of (Case t) = [Case t]"

definition test_command ::
    "(string \<Rightarrow> pymodule option) \<Rightarrow> string \<Rightarrow> (string \<times> string list \<times> string list) list
     \<Rightarrow> state \<Rightarrow> error option \<times> state" where
  "test_command importer directory walk s =
     (case loadTestsFromDirectory importer directory walk s of
        (Inl e, s1) \<Rightarrow> (Some e, s1)
      | (Inr found, s1) \<Rightarrow> (None, AppTestRunner_run (Suite ([] @ tests_of found)) s1))"

section \<open>Notions used in the statements\<close>

definition is_ran :: "logmsg \<Rightarrow> bool" where
  "is_ran m = (case m of Ran n p d \<Rightarrow> True | _ \<Rightarrow> False)"

definition ran_lines :: "state \<Rightarrow> logmsg list" where
  "ran_lines s = filter is_ran (map snd (log s))"

definition enabled_cases :: "test \<Rightarrow> testcase list" where
  "enabled_cases tst = filter (\<lambda>c. \<not> truthy (disabled_marker c)) (cases_of tst)"

definition skipped_entry :: "testcase \<times> pyval \<Rightarrow> string list" where
  "skipped_entry e =
     [rule70 CHR ''-'' @ NL,
      classname (fst e) @ ''.'' @ methodname (fst e) @ '':'' @ NL,
      ''    file:'' @ TAB @ filename (fst e) @ '':'' @ str_int (lineno (fst e)) @ NL,
      ''    reason:'' @ TAB @ py_str (snd e),
      NL]"

definition trace_entry :: "testcase \<times> string \<Rightarrow> string list" where
  "trace_entry e =
     [rule70 CHR ''-'' @ NL,
      filename (fst e) @ '':'' @ str_int (lineno (fst e)) @ NL @ NL,
      snd e,
      NL]"

definition report_section :: "string \<Rightarrow> string list list \<Rightarrow> string list" where
  "report_section title entries =
     (if entries = [] then []
      else [NL @ rule70 CHR ''='' @ NL, upper (title @ NL)] @ concat entries)"

text \<open>The result the Runner reports on: the state after the Suite has run.\<close>

definition suite_result :: "test \<Rightarrow> state \<Rightarrow> state" where
  "suite_result tst s = run_test tst (snd (default_timer (AppTestResult s)))"

text \<open>The text written for one skipped Case.\<close>

definition skipped_text :: "testcase \<Rightarrow> pyval \<Rightarrow> string" where
  "skipped_text t m =
     rule70 CHR ''-'' @ NL
     @ classname t @ ''.'' @ methodname t @ '':'' @ NL
     @ ''    file:'' @ TAB @ filename t @ '':'' @ str_int (lineno t) @ NL
     @ ''    reason:'' @ TAB @ py_str m @ NL"

text \<open>The format of the spec.\<close>

definition spec_skip_format :: "testcase \<Rightarrow> pyval \<Rightarrow> string" where
  "spec_skip_format t m =
     filename t @ '':'' @ str_int (lineno t) @ NL @ ''    reason:'' @ TAB @ py_str m @ NL"


text \<open>Recording a list of skips, one \<^verbatim>\<open>addSkip\<close> call each.\<close>

fun addSkips :: "(testcase \<times> pyval) list \<Rightarrow> state \<Rightarrow> state" where
  "addSkips [] s = s"
| "addSkips ((t, m) # ks) s = addSkips ks (addSkip t m s)"

text \<open>The order \<^verbatim>\<open>sort_methods\<close> compares by, on functions, on the names of a class and
  on Cases: by line within one file, by file path otherwise.\<close>

definition func_le :: "pyfunc \<Rightarrow> pyfunc \<Rightarrow> bool" where
  "func_le f g =
     (if sourcefile f = sourcefile g then sourceline f \<le> sourceline g
      else sourcefile f < sourcefile g)"

definition precedes :: "testcase \<Rightarrow> testcase \<Rightarrow> bool" where
  "precedes c d =
     (if filename c = filename d then lineno c \<le> lineno d else filename c < filename d)"

definition source_ordered :: "testcase list \<Rightarrow> bool" where
  "source_ordered cs = sorted_wrt precedes cs"

definition name_le :: "pyclass \<Rightarrow> string \<Rightarrow> string \<Rightarrow> bool" where
  "name_le c x y = (case (resolve c x, resolve c y) of (Inr f, Inr g) \<Rightarrow> func_le f g | _ \<Rightarrow> False)"

text \<open>Every test attribute of the class is a function, so that \<^verbatim>\<open>inspect\<close> finds its
  source.\<close>

definition tests_are_functions :: "pyclass \<Rightarrow> bool" where
  "tests_are_functions c =
     list_all (\<lambda>n. case getattr c n of None \<Rightarrow> False | Some m \<Rightarrow> func_of m \<noteq> None)
       (TestLoader_getTestCaseNames c)"

text \<open>The Cases of a (per-class) Suite are in source order.\<close>

definition class_ordered :: "test \<Rightarrow> bool" where
  "class_ordered sub = source_ordered (cases_of sub)"

text \<open>The names the native-case adapter sets: the properties of the factory and its
  overridden methods.\<close>

definition capabilities :: "string list" where
  "capabilities =
     map fst (filter (\<lambda>nm. isproperty (snd nm) \<or> fst nm \<in> set overridden_methods)
                (own testcase_factory))"

text \<open>The candidate rule in the words of the spec.\<close>

definition spec_candidate :: "string \<Rightarrow> bool" where
  "spec_candidate x =
     (case splitext x of
        (base, ext) \<Rightarrow>
          ext = module_extension
          \<and> (startswith base module_prefix \<or> endswith base module_suffix))"

section \<open>Example inputs\<close>

text \<open>The members every test case inherits from \<^verbatim>\<open>unittest.TestCase\<close> do nothing.\<close>

definition TestCase_setUp :: pyfunc where
  "TestCase_setUp = PyFunc ''setUp'' ''unittest.py'' 1 ''unittest'' None (Opaque Returns)"

definition TestCase_tearDown :: pyfunc where
  "TestCase_tearDown = PyFunc ''tearDown'' ''unittest.py'' 1 ''unittest'' None (Opaque Returns)"

definition fn_test_one :: pyfunc where
  "fn_test_one =
     PyFunc ''test_one'' ''/t/test_a.py'' 5 ''test_a'' (Some (PStr ''not ready'')) (Opaque Returns)"

definition fn_test_two :: pyfunc where
  "fn_test_two =
     PyFunc ''test_two'' ''/t/test_a.py'' 10 ''test_a'' None (Opaque (OtherException ''ValueError''))"

definition case_one :: testcase where
  "case_one = \<lparr>testMethodName = ''test_one'', testmethod = fn_test_one, im_class = None,
     case_disabled = None, setUp = TestCase_setUp, tearDown = TestCase_tearDown\<rparr>"

definition case_two :: testcase where
  "case_two = \<lparr>testMethodName = ''test_two'', testmethod = fn_test_two, im_class = None,
     case_disabled = None, setUp = TestCase_setUp, tearDown = TestCase_tearDown\<rparr>"

definition app0 :: state where
  "app0 = \<lparr>log = [], stderr = [], clock = (\<lambda>n. int n), reads = 0, calls = [], testsRun = 0,
     failures = [], errors = [], skipped = [], start = 0, stop = 0\<rparr>"

text \<open>A module \<^verbatim>\<open>/t/test_a.py\<close> with two functions and a plain class, and further
  classes.\<close>

definition fn_setup :: pyfunc where
  "fn_setup = PyFunc ''setup_method'' ''/t/test_a.py'' 14 ''test_a'' None (Opaque Returns)"

definition fn_teardown :: pyfunc where
  "fn_teardown = PyFunc ''teardown_method'' ''/t/test_a.py'' 17 ''test_a'' None (Opaque Returns)"

definition fn_test_z :: pyfunc where
  "fn_test_z = PyFunc ''test_z'' ''/t/test_a.py'' 20 ''test_a'' None (Opaque Returns)"

definition fn_test_y :: pyfunc where
  "fn_test_y = PyFunc ''test_y'' ''/t/test_a.py'' 24 ''test_a'' None (Opaque Returns)"

definition TestB :: pyclass where
  "TestB =
     \<lparr>cname = ''TestB'', is_unittest = False,
      own = [(''__module__'', Attr (PStr ''test_a'')),
             (''setup_method'', Method fn_setup),
             (''teardown_method'', Method fn_teardown),
             (''test_z'', Method fn_test_z),
             (''test_y'', Method fn_test_y),
             (''__doc__'', Attr PNone)],
      inherited = []\<rparr>"

definition TestC :: pyclass where
  "TestC =
     \<lparr>cname = ''TestC'', is_unittest = False,
      own = [(''__module__'', Attr (PStr ''test_a'')),
             (''teardown_method'', Method fn_teardown),
             (''test_z'', Method fn_test_z),
             (''__doc__'', Attr PNone)],
      inherited = []\<rparr>"

definition NativeCase :: pyclass where
  "NativeCase =
     \<lparr>cname = ''NativeCase'', is_unittest = True,
      own = [(''__module__'', Attr (PStr ''test_a'')),
             (''run'', Method fn_test_y),
             (''test_z'', Method fn_test_z),
             (''__doc__'', Attr PNone)],
      inherited = own unittest_TestCase\<rparr>"

definition module_a :: pymodule where
  "module_a = [(''test_one'', Function fn_test_one), (''TestB'', Class TestB),
               (''test_two'', Function fn_test_two)]"

definition importer_a :: "string \<Rightarrow> pymodule option" where
  "importer_a p = (if p = ''/t/test_a.py'' then Some module_a else None)"

definition walk_a :: "(string \<times> string list \<times> string list) list" where
  "walk_a = [(''/t'', [], [''notes.txt'', ''test_a.py''])]"

section \<open>Properties of the Result\<close>

lemma addSkip_fields:
  "failures (addSkip t m s) = failures s"
  "errors (addSkip t m s) = errors s"
  "testsRun (addSkip t m s) = testsRun s"
  "calls (addSkip t m s) = calls s"
  "stderr (addSkip t m s) = stderr s"
  "skipped (addSkip t m s) = skipped s @ [(t, m)]"
  by (simp_all add: addSkip_def app_log_def Let_def)

lemma addSkips_fields:
  "failures (addSkips ks s) = failures s \<and> errors (addSkips ks s) = errors s"
  by (induction ks arbitrary: s) (auto simp: addSkip_fields)

text \<open>
  C3. \<^verbatim>\<open>wasSuccessful()\<close> is true exactly when the failures list and the errors list
  are both empty, and recording any number of skips through \<^verbatim>\<open>addSkip\<close> leaves its
  value unchanged.
\<close>

theorem wasSuccessful_iff_no_failures_no_errors:
  "wasSuccessful s = (failures s = [] \<and> errors s = [])
   \<and> wasSuccessful (addSkips ks s) = wasSuccessful s"
  by (simp add: wasSuccessful_def addSkips_fields)

section \<open>Properties of the run\<close>

lemma startTest_fields:
  "failures (startTest t s) = failures s"
  "errors (startTest t s) = errors s"
  "skipped (startTest t s) = skipped s"
  "testsRun (startTest t s) = testsRun s + 1"
  "stderr (startTest t s) = stderr s"
  "calls (startTest t s) = calls s @ [StartTest t]"
  "ran_lines (startTest t s) = ran_lines s"
  by (simp_all add: startTest_def TestResult_startTest_def record_call_def app_log_def
      default_timer_def Let_def ran_lines_def is_ran_def)

lemma stopTest_fields:
  "failures (stopTest t s) = failures s"
  "errors (stopTest t s) = errors s"
  "skipped (stopTest t s) = skipped s"
  "testsRun (stopTest t s) = testsRun s"
  "stderr (stopTest t s) = stderr s"
  "calls (stopTest t s) = calls s @ [StopTest t]"
  "ran_lines (stopTest t s) = ran_lines s"
  by (simp_all add: stopTest_def record_call_def app_log_def ran_lines_def is_ran_def)

lemma addSuccess_fields:
  "failures (addSuccess t s) = failures s"
  "errors (addSuccess t s) = errors s"
  "skipped (addSuccess t s) = skipped s"
  "testsRun (addSuccess t s) = testsRun s"
  "stderr (addSuccess t s) = stderr s"
  "calls (addSuccess t s) = calls s"
  "ran_lines (addSuccess t s) = ran_lines s"
  by (simp_all add: addSuccess_def app_log_def default_timer_def Let_def status_message_def
      ran_lines_def is_ran_def)

lemma addFailure_fields:
  "failures (addFailure t e s) = failures s @ [(t, e)]"
  "errors (addFailure t e s) = errors s"
  "skipped (addFailure t e s) = skipped s"
  "testsRun (addFailure t e s) = testsRun s"
  "stderr (addFailure t e s) = stderr s"
  "calls (addFailure t e s) = calls s"
  "ran_lines (addFailure t e s) = ran_lines s"
  by (simp_all add: addFailure_def TestResult_addFailure_def app_log_def default_timer_def
      Let_def status_message_def ran_lines_def is_ran_def)

lemma addError_fields:
  "failures (addError t e s) = failures s @ [(t, e)]"
  "errors (addError t e s) = errors s"
  "skipped (addError t e s) = skipped s"
  "testsRun (addError t e s) = testsRun s"
  "stderr (addError t e s) = stderr s"
  "calls (addError t e s) = calls s"
  "ran_lines (addError t e s) = ran_lines s"
  by (simp_all add: addError_def TestResult_addFailure_def app_log_def default_timer_def
      Let_def status_message_def ran_lines_def is_ran_def)

lemma addSkip_ran: "ran_lines (addSkip t m s) = ran_lines s"
  by (simp add: addSkip_def app_log_def Let_def status_message_def ran_lines_def is_ran_def)

lemma record_call_fields:
  "failures (record_call e s) = failures s"
  "errors (record_call e s) = errors s"
  "skipped (record_call e s) = skipped s"
  "testsRun (record_call e s) = testsRun s"
  "stderr (record_call e s) = stderr s"
  "calls (record_call e s) = calls s @ [e]"
  "ran_lines (record_call e s) = ran_lines s"
  by (simp_all add: record_call_def ran_lines_def)

lemmas step_fields = startTest_fields stopTest_fields addSuccess_fields addFailure_fields
  addError_fields record_call_fields

lemma TestCase_run_fields:
  "errors (TestCase_run t s) = errors s"
  "skipped (TestCase_run t s) = skipped s"
  "testsRun (TestCase_run t s) = testsRun s + 1"
  "stderr (TestCase_run t s) = stderr s"
  "ran_lines (TestCase_run t s) = ran_lines s"
  by (simp_all add: TestCase_run_def Let_def step_fields split: outcome.splits prod.splits)

lemma run_fields:
  "errors (run t s) = errors s"
  "stderr (run t s) = stderr s"
  "ran_lines (run t s) = ran_lines s"
  "testsRun (run t s) = testsRun s + (if truthy (disabled_marker t) then 0 else 1)"
  by (simp_all add: run_def Let_def TestCase_run_fields addSkip_fields addSkip_ran)

lemma fold_run_test_count:
  assumes "\<And>x s. x \<in> set ts \<Longrightarrow> testsRun (run_test x s) = testsRun s + length (enabled_cases x)"
  shows "testsRun (fold run_test ts s) = testsRun s + length (enabled_cases (Suite ts))"
  using assms
proof (induction ts arbitrary: s)
  case Nil
  then show ?case by (simp add: enabled_cases_def)
next
  case (Cons a ts)
  have "testsRun (fold run_test ts (run_test a s)) =
        testsRun (run_test a s) + length (enabled_cases (Suite ts))"
    using Cons by simp
  then show ?case using Cons.prems [of a s] by (simp add: enabled_cases_def)
qed

lemma run_test_count:
  "testsRun (run_test tst s) = testsRun s + length (enabled_cases tst)"
proof (induction tst arbitrary: s)
  case (Case t)
  then show ?case by (simp add: run_fields enabled_cases_def)
next
  case (Suite ts)
  then show ?case using fold_run_test_count [of ts s] by simp
qed

lemma fold_preserves:
  assumes "\<And>x s. x \<in> set ts \<Longrightarrow> g (run_test x s) = g s"
  shows "g (fold run_test ts s) = g s"
  using assms by (induction ts arbitrary: s) simp_all

lemma run_test_preserves:
  assumes "\<And>t s. g (run t s) = g s"
  shows "g (run_test tst s) = g s"
proof (induction tst arbitrary: s)
  case (Case t)
  then show ?case by (simp add: assms)
next
  case (Suite ts)
  then show ?case using fold_preserves [of ts g s] by simp
qed

lemma run_test_fields:
  "errors (run_test tst s) = errors s"
  "stderr (run_test tst s) = stderr s"
  "ran_lines (run_test tst s) = ran_lines s"
  by (rule run_test_preserves, simp add: run_fields)+

lemma write_skipped_fields:
  "stderr (write_skipped ks s) = stderr s @ concat (map skipped_entry ks)"
  "failures (write_skipped ks s) = failures s"
  "errors (write_skipped ks s) = errors s"
  "skipped (write_skipped ks s) = skipped s"
  "testsRun (write_skipped ks s) = testsRun s"
  "ran_lines (write_skipped ks s) = ran_lines s"
  by (induction ks s rule: write_skipped.induct;
      simp add: stderr_write_def skipped_entry_def Let_def ran_lines_def)+

lemma write_traces_fields:
  "stderr (write_traces ks s) = stderr s @ concat (map trace_entry ks)"
  "failures (write_traces ks s) = failures s"
  "errors (write_traces ks s) = errors s"
  "skipped (write_traces ks s) = skipped s"
  "testsRun (write_traces ks s) = testsRun s"
  "ran_lines (write_traces ks s) = ran_lines s"
  by (induction ks s rule: write_traces.induct;
      simp add: stderr_write_def trace_entry_def Let_def ran_lines_def)+

lemma write_header_fields:
  "stderr (write_header title s) = stderr s @ [NL @ rule70 CHR ''='' @ NL, upper (title @ NL)]"
  "failures (write_header title s) = failures s"
  "errors (write_header title s) = errors s"
  "skipped (write_header title s) = skipped s"
  "testsRun (write_header title s) = testsRun s"
  "ran_lines (write_header title s) = ran_lines s"
  by (simp_all add: write_header_def stderr_write_def ran_lines_def)

lemma app_log_ran:
  "ran_lines (app_log lv m s) = ran_lines s @ (if is_ran m then [m] else [])"
  by (simp add: app_log_def ran_lines_def)

lemma app_log_fields:
  "failures (app_log lv m s) = failures s"
  "errors (app_log lv m s) = errors s"
  "skipped (app_log lv m s) = skipped s"
  "testsRun (app_log lv m s) = testsRun s"
  "stderr (app_log lv m s) = stderr s"
  by (simp_all add: app_log_def)

lemma ran_lines_reads: "ran_lines (s\<lparr>reads := n\<rparr>) = ran_lines s"
  by (simp add: ran_lines_def)

lemmas report_fields = write_skipped_fields write_traces_fields write_header_fields

lemma Runner_lists:
  "failures (AppTestRunner_run tst s) = failures (suite_result tst s)"
  "errors (AppTestRunner_run tst s) = errors (suite_result tst s)"
  "skipped (AppTestRunner_run tst s) = skipped (suite_result tst s)"
  "testsRun (AppTestRunner_run tst s) = testsRun (suite_result tst s)"
  by (simp_all add: AppTestRunner_run_def suite_result_def Let_def report_fields app_log_def
      default_timer_def wasSuccessful_def split: prod.splits)

lemma Runner_stderr:
  "stderr (AppTestRunner_run tst s) =
     stderr s @
     (if \<not> wasSuccessful (suite_result tst s) \<or> skipped (suite_result tst s) \<noteq> [] then
        report_section ''Skipped:'' (map skipped_entry (skipped (suite_result tst s)))
        @ report_section ''Errors:'' (map trace_entry (errors (suite_result tst s)))
        @ report_section ''Failures:'' (map trace_entry (failures (suite_result tst s)))
      else [])"
  by (simp add: AppTestRunner_run_def suite_result_def Let_def report_fields app_log_def
      default_timer_def wasSuccessful_def report_section_def run_test_fields AppTestResult_def
      split: prod.splits)

lemmas example_defs = TestCase_setUp_def TestCase_tearDown_def fn_test_one_def fn_test_two_def
  case_one_def case_two_def app0_def

lemma Runner_ran:
  "ran_lines (AppTestRunner_run tst s) =
     ran_lines (suite_result tst s)
     @ [Ran (testsRun (suite_result tst s)) (plural (testsRun (suite_result tst s)))
          (fst (default_timer (suite_result tst s)) - fst (default_timer (AppTestResult s)))]"
  by (simp add: AppTestRunner_run_def suite_result_def Let_def report_fields app_log_fields
      app_log_ran default_timer_def is_ran_def ran_lines_reads split: prod.splits)

text \<open>
  C2. When the disabled marker of a Case, read from the test method first and from the
  Case otherwise, is truthy, \<^verbatim>\<open>run\<close> makes no protocol or hook call at all (neither
  \<^verbatim>\<open>setUp\<close>, nor the test body, nor \<^verbatim>\<open>tearDown\<close>) and appends exactly the pair of
  the Case and the marker to the skipped list; failures and errors are left alone.
\<close>

theorem disabled_case_is_skipped:
  assumes "m = (case disabled (testmethod t) of
                  Some v \<Rightarrow> v
                | None \<Rightarrow> (case case_disabled t of Some v \<Rightarrow> v | None \<Rightarrow> PNone))"
    and "truthy m"
  shows "calls (run t s) = calls s \<and> skipped (run t s) = skipped s @ [(t, m)]
         \<and> failures (run t s) = failures s \<and> errors (run t s) = errors s"
  using assms by (simp add: run_def disabled_marker_def Let_def addSkip_fields)

text \<open>The Case \<open>test_one\<close>, whose test function carries the marker
  \<^verbatim>\<open>"not ready"\<close>, run on a fresh state.\<close>

theorem disabled_case_is_skipped_witness:
  "truthy (PStr ''not ready'')
   \<and> calls (run case_one app0) = []
   \<and> skipped (run case_one app0) = [(case_one, PStr ''not ready'')]
   \<and> failures (run case_one app0) = [] \<and> errors (run case_one app0) = []"
  using disabled_case_is_skipped [of "PStr ''not ready''" case_one app0]
  by (simp add: example_defs)

text \<open>
  C9. A Case whose disabled marker is truthy leaves \<^verbatim>\<open>testsRun\<close> and the sequence of
  calls unchanged, so neither \<^verbatim>\<open>startTest\<close> nor \<^verbatim>\<open>stopTest\<close> is invoked for it. The
  count the Runner ends with, and prints in its single \<^verbatim>\<open>Ran N test(s)\<close> line, is the
  number of Cases of the Suite that are not disabled.
\<close>

theorem skipped_cases_not_counted:
  "(truthy (disabled_marker t) \<longrightarrow> testsRun (run t s) = testsRun s \<and> calls (run t s) = calls s)
   \<and> testsRun (AppTestRunner_run tst s) = length (enabled_cases tst)
   \<and> (\<exists>d. ran_lines (AppTestRunner_run tst s)
            = ran_lines s @ [Ran (length (enabled_cases tst)) (plural (length (enabled_cases tst))) d])"
proof -
  have a: "truthy (disabled_marker t) \<longrightarrow> testsRun (run t s) = testsRun s \<and> calls (run t s) = calls s"
    by (simp add: run_def Let_def addSkip_fields)
  have b: "testsRun (AppTestRunner_run tst s) = length (enabled_cases tst)"
    by (simp add: Runner_lists suite_result_def run_test_count default_timer_def AppTestResult_def)
  have c: "\<exists>d. ran_lines (AppTestRunner_run tst s)
            = ran_lines s @ [Ran (length (enabled_cases tst)) (plural (length (enabled_cases tst))) d]"
    using Runner_ran [of tst s]
    by (simp add: suite_result_def run_test_count run_test_fields default_timer_def
        AppTestResult_def ran_lines_reads)
       (simp add: ran_lines_def)
  from a b c show ?thesis by blast
qed

text \<open>A Suite of the disabled \<open>test_one\<close> and the enabled \<open>test_two\<close> reports one
  test, in the singular.\<close>

theorem skipped_cases_not_counted_witness:
  "truthy (disabled_marker case_one)
   \<and> testsRun (run case_one app0) = 0 \<and> calls (run case_one app0) = []
   \<and> testsRun (AppTestRunner_run (Suite [Case case_one, Case case_two]) app0) = 1
   \<and> (\<exists>d. ran_lines (AppTestRunner_run (Suite [Case case_one, Case case_two]) app0)
            = [Ran 1 [] d])"
  using skipped_cases_not_counted [of case_one app0 "Suite [Case case_one, Case case_two]"]
  by (simp add: example_defs enabled_cases_def disabled_marker_def plural_def ran_lines_def)

text \<open>
  C4. What the code does with an exception of the test body that is not an
  assertion-style failure: \<^verbatim>\<open>addError\<close> hands it to \<^verbatim>\<open>TestResult.addFailure\<close>, so the
  pair of the Case and the traceback lands in the failures list and the errors list does
  not change. After any Suite the errors list of the Runner's Result is empty and the
  report has no Errors section.
\<close>

theorem uncaught_exception_recorded_as_failure:
  "(\<not> truthy (disabled_marker t) \<and> call (setUp t) = Returns
      \<and> call (testmethod t) = OtherException tb \<and> call (tearDown t) = Returns
    \<longrightarrow> errors (run t s) = errors s \<and> failures (run t s) = failures s @ [(t, tb)])
   \<and> errors (AppTestRunner_run tst s) = []
   \<and> report_section ''Errors:'' (map trace_entry (errors (AppTestRunner_run tst s))) = []"
proof -
  have a: "\<not> truthy (disabled_marker t) \<and> call (setUp t) = Returns
      \<and> call (testmethod t) = OtherException tb \<and> call (tearDown t) = Returns
    \<longrightarrow> errors (run t s) = errors s \<and> failures (run t s) = failures s @ [(t, tb)]"
    by (simp add: run_def Let_def TestCase_run_def step_fields)
  have b: "errors (AppTestRunner_run tst s) = []"
    by (simp add: Runner_lists suite_result_def run_test_fields default_timer_def
        AppTestResult_def)
  from a b show ?thesis by (simp add: report_section_def)
qed

text \<open>The Case \<open>test_two\<close>, whose body raises \<^verbatim>\<open>ValueError\<close>.\<close>

theorem uncaught_exception_recorded_as_failure_witness:
  "\<not> truthy (disabled_marker case_two) \<and> call (testmethod case_two) = OtherException ''ValueError''
   \<and> errors (run case_two app0) = []
   \<and> failures (run case_two app0) = [(case_two, ''ValueError'')]
   \<and> errors (AppTestRunner_run (Suite [Case case_two]) app0) = []"
  using uncaught_exception_recorded_as_failure [of case_two "''ValueError''" app0 "Suite [Case case_two]"]
  by (simp add: example_defs disabled_marker_def)

text \<open>
  C6. The Runner writes to the error-output stream exactly when the Result is not
  successful or its skipped list is not empty. What it writes then is the Skipped section,
  followed by the Errors section, followed by the Failures section, each present only
  when its list is not empty.
\<close>

theorem detail_report_emitted_iff:
  "stderr (AppTestRunner_run tst s) =
     stderr s @
     (if \<not> wasSuccessful (AppTestRunner_run tst s) \<or> skipped (AppTestRunner_run tst s) \<noteq> [] then
        report_section ''Skipped:'' (map skipped_entry (skipped (AppTestRunner_run tst s)))
        @ report_section ''Errors:'' (map trace_entry (errors (AppTestRunner_run tst s)))
        @ report_section ''Failures:'' (map trace_entry (failures (AppTestRunner_run tst s)))
      else [])
   \<and> ((stderr (AppTestRunner_run tst s) \<noteq> stderr s) =
        (\<not> wasSuccessful (AppTestRunner_run tst s) \<or> skipped (AppTestRunner_run tst s) \<noteq> []))"
proof -
  have ws: "wasSuccessful (AppTestRunner_run tst s) = wasSuccessful (suite_result tst s)"
    by (simp add: wasSuccessful_def Runner_lists)
  have a: "stderr (AppTestRunner_run tst s) =
     stderr s @
     (if \<not> wasSuccessful (AppTestRunner_run tst s) \<or> skipped (AppTestRunner_run tst s) \<noteq> [] then
        report_section ''Skipped:'' (map skipped_entry (skipped (AppTestRunner_run tst s)))
        @ report_section ''Errors:'' (map trace_entry (errors (AppTestRunner_run tst s)))
        @ report_section ''Failures:'' (map trace_entry (failures (AppTestRunner_run tst s)))
      else [])"
    unfolding ws Runner_lists by (rule Runner_stderr)
  have b: "(stderr (AppTestRunner_run tst s) \<noteq> stderr s) =
        (\<not> wasSuccessful (AppTestRunner_run tst s) \<or> skipped (AppTestRunner_run tst s) \<noteq> [])"
    unfolding a by (auto simp: report_section_def wasSuccessful_def)
  from a b show ?thesis by blast
qed

lemma upper_titles:
  "upper (''Skipped:'' @ NL) = ''SKIPPED:'' @ NL"
  "upper (''Errors:'' @ NL) = ''ERRORS:'' @ NL"
  "upper (''Failures:'' @ NL) = ''FAILURES:'' @ NL"
  by code_simp+

lemma str_int_examples:
  "str_int 5 = ''5''" "str_int 10 = ''10''" "str_int 3 = ''3''"
  by code_simp+

lemma example_suite_result:
  "skipped (AppTestRunner_run (Suite [Case case_one, Case case_two]) app0)
     = [(case_one, PStr ''not ready'')]"
  "failures (AppTestRunner_run (Suite [Case case_one, Case case_two]) app0)
     = [(case_two, ''ValueError'')]"
  "errors (AppTestRunner_run (Suite [Case case_one, Case case_two]) app0) = []"
  by (simp_all add: Runner_lists suite_result_def run_def TestCase_run_def Let_def step_fields
      addSkip_fields disabled_marker_def example_defs default_timer_def AppTestResult_def)

text \<open>A Suite with one skipped and one errored Case, and the empty Suite, which writes
  nothing.\<close>

theorem detail_report_emitted_iff_witness:
  "stderr (AppTestRunner_run (Suite [Case case_one, Case case_two]) app0) =
     [NL @ rule70 CHR ''='' @ NL, ''SKIPPED:'' @ NL,
      rule70 CHR ''-'' @ NL, ''test_a.test_one:'' @ NL,
      ''    file:'' @ TAB @ ''/t/test_a.py:5'' @ NL, ''    reason:'' @ TAB @ ''not ready'', NL,
      NL @ rule70 CHR ''='' @ NL, ''FAILURES:'' @ NL,
      rule70 CHR ''-'' @ NL, ''/t/test_a.py:10'' @ NL @ NL, ''ValueError'', NL]
   \<and> stderr (AppTestRunner_run (Suite []) app0) = []"
proof -
  have e: "skipped (AppTestRunner_run (Suite []) app0) = []"
      "failures (AppTestRunner_run (Suite []) app0) = []"
      "errors (AppTestRunner_run (Suite []) app0) = []"
    by (simp_all add: Runner_lists suite_result_def example_defs default_timer_def
        AppTestResult_def)
  have a: "stderr app0 = []" by (simp add: app0_def)
  have k: "skipped_entry (case_one, PStr ''not ready'') =
     [rule70 CHR ''-'' @ NL, ''test_a.test_one:'' @ NL,
      ''    file:'' @ TAB @ ''/t/test_a.py:5'' @ NL, ''    reason:'' @ TAB @ ''not ready'', NL]"
    by (simp add: skipped_entry_def str_int_examples classname_def methodname_def filename_def
        lineno_def case_one_def fn_test_one_def)
  have f: "trace_entry (case_two, ''ValueError'') =
     [rule70 CHR ''-'' @ NL, ''/t/test_a.py:10'' @ NL @ NL, ''ValueError'', NL]"
    by (simp add: trace_entry_def str_int_examples filename_def lineno_def case_two_def
        fn_test_two_def)
  show ?thesis
    using detail_report_emitted_iff [of "Suite [Case case_one, Case case_two]" app0]
      detail_report_emitted_iff [of "Suite []" app0]
    by (simp add: example_suite_result e a k f wasSuccessful_def report_section_def
        upper_titles [simplified])
qed

text \<open>
  C8, as the code has it. For every skipped Case of the report the text written is a rule
  of 70 dashes and a newline, the line \<^verbatim>\<open><classname>.<methodname>:\<close>, the line
  \<^verbatim>\<open>    file:<TAB><file>:<line>\<close> and the line \<^verbatim>\<open>    reason:<TAB><message>\<close>.
\<close>

theorem skipped_case_text:
  "concat (stderr (write_skipped ks s)) =
     concat (stderr s) @ concat (map (\<lambda>(t, m). skipped_text t m) ks)"
proof -
  have "concat (concat (map skipped_entry ks)) = concat (map (\<lambda>(t, m). skipped_text t m) ks)"
    by (induction ks) (auto simp: skipped_entry_def skipped_text_def)
  then show ?thesis by (simp add: write_skipped_fields)
qed

text \<open>For the skipped \<open>test_one\<close> the text written is not the format
  \<^verbatim>\<open><file>:<line>\n    reason:\t<message>\n\<close>.\<close>

theorem skipped_case_text_is_not_spec_format:
  "concat (stderr (write_skipped [(case_one, PStr ''not ready'')] app0))
     \<noteq> spec_skip_format case_one (PStr ''not ready'')"
  by code_simp


section \<open>Properties of the Loader\<close>

lemma func_le_trans: "func_le f g \<Longrightarrow> func_le g h \<Longrightarrow> func_le f h"
  by (auto simp: func_le_def split: if_splits)

lemma func_le_total: "\<not> func_le f g \<Longrightarrow> func_le g f"
  by (auto simp: func_le_def split: if_splits)

lemma sort_methods_resolved:
  assumes "resolve c x = Inr f" "resolve c y = Inr g"
  shows "\<exists>k. sort_methods c x y = Inr k \<and> (k \<le> 0) = func_le f g"
  using assms by (auto simp: sort_methods_def func_le_def cmp_def)

lemma name_le_resolved:
  "resolve c x = Inr f \<Longrightarrow> resolve c y = Inr g \<Longrightarrow> name_le c x y = func_le f g"
  by (simp add: name_le_def)

lemma name_le_trans: "name_le c x y \<Longrightarrow> name_le c y z \<Longrightarrow> name_le c x z"
  by (auto simp: name_le_def split: sum.splits intro: func_le_trans)

lemma insort_by_sorted:
  assumes "\<forall>n \<in> set (x # ys). \<exists>f. resolve c n = Inr f"
    and "sorted_wrt (name_le c) ys"
  shows "\<exists>zs. insort_by (sort_methods c) x ys = Inr zs \<and> set zs = set (x # ys)
              \<and> sorted_wrt (name_le c) zs"
  using assms
proof (induction ys)
  case Nil
  then show ?case by simp
next
  case (Cons y ys)
  obtain f g where fg: "resolve c x = Inr f" "resolve c y = Inr g"
    using Cons.prems(1) by auto
  obtain k where k: "sort_methods c x y = Inr k" "(k \<le> 0) = func_le f g"
    using sort_methods_resolved [OF fg] by blast
  show ?case
  proof (cases "k \<le> 0")
    case True
    then have xy: "name_le c x y" using k fg by (simp add: name_le_resolved)
    have "\<forall>z \<in> set ys. name_le c x z"
      using xy Cons.prems(2) by (auto intro: name_le_trans)
    then show ?thesis using True k xy Cons.prems(2) by simp
  next
    case False
    then have yx: "name_le c y x"
      using k fg func_le_total [of f g] by (simp add: name_le_resolved)
    have "\<exists>zs. insort_by (sort_methods c) x ys = Inr zs \<and> set zs = set (x # ys)
              \<and> sorted_wrt (name_le c) zs"
      using Cons.IH Cons.prems by simp
    then obtain zs where zs: "insort_by (sort_methods c) x ys = Inr zs"
      "set zs = set (x # ys)" "sorted_wrt (name_le c) zs" by blast
    have "\<forall>z \<in> set zs. name_le c y z"
      using zs(2) yx Cons.prems(2) by auto
    then show ?thesis using False k zs by auto
  qed
qed

lemma sort_by_sorted:
  assumes "\<forall>n \<in> set xs. \<exists>f. resolve c n = Inr f"
  shows "\<exists>zs. sort_by (sort_methods c) xs = Inr zs \<and> set zs = set xs
              \<and> sorted_wrt (name_le c) zs"
  using assms
proof (induction xs)
  case Nil
  then show ?case by simp
next
  case (Cons x xs)
  then obtain ys where ys: "sort_by (sort_methods c) xs = Inr ys" "set ys = set xs"
    "sorted_wrt (name_le c) ys" by auto
  have "\<forall>n \<in> set (x # ys). \<exists>f. resolve c n = Inr f"
    using Cons.prems ys(2) by simp
  from insort_by_sorted [OF this ys(3)] ys show ?case by auto
qed

lemma sort_methods_Inr:
  assumes "sort_methods c x y = Inr k"
  shows "\<exists>f g. resolve c x = Inr f \<and> resolve c y = Inr g \<and> (k \<le> 0) = func_le f g"
proof -
  from assms obtain f where f: "resolve c x = Inr f"
    by (cases "resolve c x") (simp_all add: sort_methods_def)
  from assms f obtain g where g: "resolve c y = Inr g"
    by (cases "resolve c y") (simp_all add: sort_methods_def)
  from sort_methods_resolved [OF f g] assms f g show ?thesis by auto
qed

lemma insort_by_Inr_sorted:
  assumes "insort_by (sort_methods c) x ys = Inr zs" "sorted_wrt (name_le c) ys"
  shows "sorted_wrt (name_le c) zs \<and> set zs = set (x # ys)"
  using assms
proof (induction ys arbitrary: zs)
  case Nil
  then show ?case by auto
next
  case (Cons y ys)
  from Cons.prems(1) obtain k where k: "sort_methods c x y = Inr k"
    by (auto split: sum.splits)
  then obtain f g where fg: "resolve c x = Inr f" "resolve c y = Inr g" "(k \<le> 0) = func_le f g"
    using sort_methods_Inr by blast
  show ?case
  proof (cases "k \<le> 0")
    case True
    then have xy: "name_le c x y" using fg by (simp add: name_le_resolved)
    have "\<forall>z \<in> set ys. name_le c x z"
      using xy Cons.prems(2) by (auto intro: name_le_trans)
    then show ?thesis using True k xy Cons.prems by auto
  next
    case False
    then have yx: "name_le c y x"
      using fg func_le_total [of f g] by (simp add: name_le_resolved)
    from Cons.prems(1) False k obtain zs' where zs': "insort_by (sort_methods c) x ys = Inr zs'"
      "zs = y # zs'"
      by (auto split: sum.splits)
    have ih: "sorted_wrt (name_le c) zs' \<and> set zs' = set (x # ys)"
      using Cons.IH [OF zs'(1)] Cons.prems(2) by simp
    have "\<forall>z \<in> set zs'. name_le c y z"
      using ih yx Cons.prems(2) by auto
    then show ?thesis using ih zs'(2) by auto
  qed
qed

lemma sort_by_Inr_sorted:
  assumes "sort_by (sort_methods c) xs = Inr zs"
  shows "sorted_wrt (name_le c) zs \<and> set zs = set xs"
  using assms
proof (induction xs arbitrary: zs)
  case Nil
  then show ?case by simp
next
  case (Cons x xs)
  from Cons.prems obtain ys where ys: "sort_by (sort_methods c) xs = Inr ys"
    "insort_by (sort_methods c) x ys = Inr zs"
    by (auto split: sum.splits)
  from Cons.IH [OF ys(1)] insort_by_Inr_sorted [OF ys(2)] show ?case by auto
qed

lemma test_names_resolve:
  assumes "tests_are_functions c" "n \<in> set (TestLoader_getTestCaseNames c)"
  shows "\<exists>m f. getattr c n = Some m \<and> func_of m = Some f"
  using assms by (auto simp: tests_are_functions_def list_all_iff split: option.splits)

lemma getTestCaseNames_returns:
  assumes "tests_are_functions c"
  shows "\<exists>zs. getTestCaseNames c = Inr zs \<and> set zs = set (TestLoader_getTestCaseNames c)"
proof -
  have "\<forall>n \<in> set (TestLoader_getTestCaseNames c). \<exists>f. resolve c n = Inr f"
    using test_names_resolve [OF assms] by (fastforce simp: resolve_def)
  from sort_by_sorted [OF this] show ?thesis by (auto simp: getTestCaseNames_def)
qed

lemma instantiate_function:
  assumes "getattr c n = Some m" "func_of m = Some f"
  shows "\<exists>t. instantiate c n = Inr t \<and> testmethod t = f"
  using assms by (cases m) (auto simp: instantiate_def)

lemma instantiate_testmethod:
  assumes "instantiate c n = Inr t"
  shows "resolve c n = Inr (testmethod t)"
  using assms
  by (auto simp: instantiate_def resolve_def split: option.splits member.splits)

lemma map_each_instantiate:
  assumes "\<forall>n \<in> set ns. \<exists>m f. getattr c n = Some m \<and> func_of m = Some f"
  shows "\<exists>ts. map_each (instantiate c) ns = Inr ts"
  using assms
proof (induction ns)
  case Nil
  then show ?case by simp
next
  case (Cons n ns)
  then obtain ts where "map_each (instantiate c) ns = Inr ts" by auto
  moreover obtain t where "instantiate c n = Inr t"
    using Cons.prems instantiate_function [of c n] by fastforce
  ultimately show ?case by simp
qed

lemma map_each_ordered:
  assumes "map_each (instantiate c) ns = Inr ts" "sorted_wrt (name_le c) ns"
  shows "sorted_wrt precedes ts \<and> (\<forall>t \<in> set ts. \<exists>n \<in> set ns. resolve c n = Inr (testmethod t))"
  using assms
proof (induction ns arbitrary: ts)
  case Nil
  then show ?case by simp
next
  case (Cons n ns)
  from Cons.prems(1) obtain t ts' where t: "instantiate c n = Inr t"
    "map_each (instantiate c) ns = Inr ts'" "ts = t # ts'"
    by (auto split: sum.splits)
  have ih: "sorted_wrt precedes ts' \<and> (\<forall>t \<in> set ts'. \<exists>n \<in> set ns. resolve c n = Inr (testmethod t))"
    using Cons.IH [OF t(2)] Cons.prems(2) by simp
  have r: "resolve c n = Inr (testmethod t)" using t(1) by (rule instantiate_testmethod)
  have "\<forall>u \<in> set ts'. precedes t u"
  proof
    fix u assume "u \<in> set ts'"
    then obtain k where k: "k \<in> set ns" "resolve c k = Inr (testmethod u)" using ih by blast
    then have "name_le c n k" using Cons.prems(2) by simp
    then have "func_le (testmethod t) (testmethod u)" using r k(2) by (simp add: name_le_resolved)
    then show "precedes t u" by (simp add: precedes_def func_le_def filename_def lineno_def)
  qed
  then show ?case using ih t(3) r by auto
qed

lemma cases_of_Suite_Case: "cases_of (Suite (map Case ts)) = ts"
  by (induction ts) simp_all

lemma loadTestsFromTestCase_ordered:
  assumes "loadTestsFromTestCase c = Inr t"
  shows "source_ordered (cases_of t)"
proof -
  from assms obtain zs where zs: "getTestCaseNames c = Inr zs"
    by (auto simp: loadTestsFromTestCase_def split: sum.splits)
  then have "sorted_wrt (name_le c) zs"
    using sort_by_Inr_sorted [of c _ zs] by (simp add: getTestCaseNames_def)
  note zs = zs this
  define ns where "ns = (if zs = [] \<and> hasattr c ''runTest'' then [''runTest''] else zs)"
  have s: "sorted_wrt (name_le c) ns" using zs(2) by (simp add: ns_def)
  from assms zs(1) obtain ts where ts: "map_each (instantiate c) ns = Inr ts" "t = Suite (map Case ts)"
    by (auto simp: loadTestsFromTestCase_def Let_def ns_def split: sum.splits)
  from map_each_ordered [OF ts(1) s] show ?thesis
    unfolding ts(2) cases_of_Suite_Case source_ordered_def by simp
qed

lemma loadTestsFromTestCase_returns:
  assumes "tests_are_functions c"
    and "hasattr c ''runTest'' \<longrightarrow> (\<exists>m f. getattr c ''runTest'' = Some m \<and> func_of m = Some f)"
  shows "\<exists>t. loadTestsFromTestCase c = Inr t"
proof -
  obtain zs where zs: "getTestCaseNames c = Inr zs" "set zs = set (TestLoader_getTestCaseNames c)"
    using getTestCaseNames_returns [OF assms(1)] by blast
  define ns where "ns = (if zs = [] \<and> hasattr c ''runTest'' then [''runTest''] else zs)"
  have "\<forall>n \<in> set ns. \<exists>m f. getattr c n = Some m \<and> func_of m = Some f"
  proof (cases "zs = [] \<and> hasattr c ''runTest''")
    case True
    then show ?thesis using assms(2) by (auto simp: ns_def)
  next
    case False
    then show ?thesis using zs(2) test_names_resolve [OF assms(1)] by (auto simp: ns_def)
  qed
  from map_each_instantiate [OF this] obtain ts where "map_each (instantiate c) ns = Inr ts" ..
  then show ?thesis using zs(1) by (simp add: loadTestsFromTestCase_def Let_def ns_def)
qed

lemma map_each_all:
  assumes "map_each f xs = Inr ys" "\<And>x y. f x = Inr y \<Longrightarrow> P y"
  shows "list_all P ys"
  using assms
proof (induction xs arbitrary: ys)
  case Nil
  then show ?case by simp
next
  case (Cons x xs)
  then show ?case by (auto split: sum.splits)
qed

lemma loadTestsFromFile_ordered:
  assumes "loadTestsFromFile importer fname = Inr ts"
  shows "list_all class_ordered ts"
proof -
  from assms obtain m where "loadTestsFromModule m = Inr ts"
    by (auto simp: loadTestsFromFile_def split: option.splits)
  then show ?thesis
    unfolding loadTestsFromModule_def Let_def
    by (rule map_each_all) (simp add: class_ordered_def loadTestsFromTestCase_ordered)
qed

lemma load_candidates_ordered:
  assumes "fst (load_candidates importer dirpath cands suite s) = Inr suite'"
    and "list_all class_ordered suite"
  shows "list_all class_ordered suite'"
  using assms
proof (induction importer dirpath cands suite s rule: load_candidates.induct)
  case (1 importer dirpath suite s)
  then show ?case by simp
next
  case (2 importer dirpath candidate rest suite s)
  from "2.prems"(1) obtain tests where
    t: "loadTestsFromFile importer (path_join dirpath candidate) = Inr tests"
    by (auto simp: Let_def split: sum.splits)
  have "list_all class_ordered (suite @ tests)"
    using "2.prems"(2) loadTestsFromFile_ordered [OF t] by simp
  then show ?case using "2.IH" [OF refl refl t] "2.prems"(1) t by (simp add: Let_def)
qed

lemma walk_directories_ordered:
  assumes "fst (walk_directories importer walk suite s) = Inr suite'"
    and "list_all class_ordered suite"
  shows "list_all class_ordered suite'"
  using assms
proof (induction importer walk suite s rule: walk_directories.induct)
  case (1 importer suite s)
  then show ?case by simp
next
  case (2 importer dirpath dirnames filenames rest suite s)
  obtain r s1 where r: "load_candidates importer dirpath (candidates filenames) suite s = (r, s1)"
    by (cases "load_candidates importer dirpath (candidates filenames) suite s")
  show ?case
  proof (cases r)
    case (Inl e)
    then show ?thesis using "2.prems"(1) r by (simp add: Let_def)
  next
    case (Inr suite1)
    have "list_all class_ordered suite1"
      using load_candidates_ordered [of importer dirpath "candidates filenames" suite s suite1]
        r Inr "2.prems"(2) by simp
    then show ?thesis using "2.IH" [OF refl r [symmetric] Inr] "2.prems"(1) r Inr
      by (simp add: Let_def)
  qed
qed

lemma loadTestsFromDirectory_ordered:
  assumes "fst (loadTestsFromDirectory importer root walk s) = Inr found"
  shows "list_all class_ordered (tests_of found)"
proof -
  obtain r s1 where r: "walk_directories importer walk [] (app_log Debug (Examining root) s) = (r, s1)"
    by (cases "walk_directories importer walk [] (app_log Debug (Examining root) s)")
  from assms r obtain suite where s: "r = Inr suite" "found = Suite suite"
    by (cases r) (auto simp: loadTestsFromDirectory_def)
  have "fst (walk_directories importer walk [] (app_log Debug (Examining root) s)) = Inr suite"
    using r s(1) by simp
  then have "list_all class_ordered suite"
    by (rule walk_directories_ordered) simp
  then show ?thesis by (simp add: s(2))
qed

lemma map_of_assign: "map_of (assign n v kvs) = (map_of kvs)(n \<mapsto> v)"
  by (induction kvs) auto

lemma getattr_setattr:
  "getattr (setattr c k v) n = (if n = k then Some v else getattr c n)"
  by (auto simp: getattr_def setattr_def map_of_assign map_add_def split: option.splits)

lemma setattr_fields:
  "cname (setattr c k v) = cname c"
  "is_unittest (setattr c k v) = is_unittest c"
  "inherited (setattr c k v) = inherited c"
  "map_of (own (setattr c k v)) = (map_of (own c))(k \<mapsto> v)"
  by (simp_all add: setattr_def map_of_assign)

lemma getattr_cname: "getattr (c\<lparr>cname := x\<rparr>) n = getattr c n"
  by (simp add: getattr_def)

lemma copy_member_keeps:
  "hasattr c n \<Longrightarrow> getattr (copy_member nm c) n = getattr c n"
  by (auto simp: copy_member_def getattr_setattr hasattr_def)

lemma fold_copy_member_keeps:
  "hasattr c n \<Longrightarrow> getattr (fold copy_member xs c) n = getattr c n"
proof (induction xs arbitrary: c)
  case Nil
  then show ?case by simp
next
  case (Cons x xs)
  have "hasattr (copy_member x c) n"
    using Cons.prems copy_member_keeps [of c n x] by (simp add: hasattr_def)
  then show ?case using Cons.IH [of "copy_member x c"] Cons.prems
    by (simp add: copy_member_keeps)
qed

lemma factory_tearDown:
  "getattr (new_class n doc testcase_factory) ''tearDown''
     = Some (Method (library_method ''tearDown'' 3))"
  "getattr testcase_factory ''tearDown'' = Some (Method (library_method ''tearDown'' 3))"
  by (simp_all add: getattr_def new_class_def testcase_factory_def AppTestCase_def
      unittest_TestCase_def)

text \<open>
  C5. What the filter does: a file whose base name (the name without its extension) ends
  with the module suffix is a candidate whatever its extension is; the extension is only
  compared on the prefix branch.
\<close>

theorem suffix_match_ignores_extension:
  "endswith (fst (splitext x)) module_suffix \<Longrightarrow> is_candidate x"
  by (cases "splitext x") (simp add: is_candidate_def)

text \<open>The file \<^verbatim>\<open>notes_test.txt\<close> has the extension \<^verbatim>\<open>.txt\<close> and is a candidate,
  which the rule "extension \<^verbatim>\<open>.py\<close> and prefix or suffix" excludes.\<close>

theorem suffix_match_ignores_extension_witness:
  "endswith (fst (splitext ''notes_test.txt'')) module_suffix
   \<and> snd (splitext ''notes_test.txt'') = ''.txt''
   \<and> is_candidate ''notes_test.txt''
   \<and> \<not> spec_candidate ''notes_test.txt''"
proof -
  have a: "endswith (fst (splitext ''notes_test.txt'')) module_suffix" by code_simp
  have b: "snd (splitext ''notes_test.txt'') = ''.txt''" by code_simp
  have c: "\<not> spec_candidate ''notes_test.txt''" by code_simp
  from a b c suffix_match_ignores_extension [OF a] show ?thesis by simp
qed

text \<open>
  C7. What the plain-class adapter installs: when the class has a callable
  \<^verbatim>\<open>setup_method\<close>, both \<^verbatim>\<open>setUp\<close> and \<^verbatim>\<open>tearDown\<close> of the Case class are closures
  that call that \<^verbatim>\<open>setup_method\<close> with \<^verbatim>\<open>(self, self.testmethod)\<close>; when it has
  none, \<^verbatim>\<open>tearDown\<close> is the one inherited from the factory. The attribute
  \<^verbatim>\<open>teardown_method\<close> is never read.
\<close>

theorem tearDown_hook_forwards_to_setup_method:
  "(callable_attr cls ''setup_method'' = Some f \<longrightarrow>
      getattr (loadTestCaseFromTestClass cls) ''setUp'' = Some (Method (closure ''setUp'' 283 f))
      \<and> getattr (loadTestCaseFromTestClass cls) ''tearDown''
          = Some (Method (closure ''tearDown'' 287 f)))
   \<and> (callable_attr cls ''setup_method'' = None \<longrightarrow>
      getattr (loadTestCaseFromTestClass cls) ''tearDown'' = getattr testcase_factory ''tearDown'')"
proof -
  have h: "hasattr (new_class ''PlainTestCase'' ''To collect plain class-based tests.''
                     testcase_factory) ''tearDown''"
    by (simp add: hasattr_def factory_tearDown)
  show ?thesis
    by (simp add: loadTestCaseFromTestClass_def Let_def getattr_setattr getattr_cname
        fold_copy_member_keeps [OF h] factory_tearDown)
qed

text \<open>\<open>TestB\<close> defines both hooks, \<open>TestC\<close> only \<^verbatim>\<open>teardown_method\<close>: in neither does
  \<^verbatim>\<open>tearDown\<close> reach \<^verbatim>\<open>teardown_method\<close>.\<close>

theorem tearDown_hook_forwards_to_setup_method_witness:
  "callable_attr TestB ''setup_method'' = Some (Method fn_setup)
   \<and> callable_attr TestB ''teardown_method'' = Some (Method fn_teardown)
   \<and> getattr (loadTestCaseFromTestClass TestB) ''setUp''
       = Some (Method (closure ''setUp'' 283 (Method fn_setup)))
   \<and> getattr (loadTestCaseFromTestClass TestB) ''tearDown''
       = Some (Method (closure ''tearDown'' 287 (Method fn_setup)))
   \<and> fn_setup \<noteq> fn_teardown
   \<and> callable_attr TestC ''setup_method'' = None
   \<and> callable_attr TestC ''teardown_method'' = Some (Method fn_teardown)
   \<and> getattr (loadTestCaseFromTestClass TestC) ''tearDown''
       = Some (Method (library_method ''tearDown'' 3))"
proof -
  have a: "callable_attr TestB ''setup_method'' = Some (Method fn_setup)"
    "callable_attr TestB ''teardown_method'' = Some (Method fn_teardown)"
    "callable_attr TestC ''setup_method'' = None"
    "callable_attr TestC ''teardown_method'' = Some (Method fn_teardown)"
    by (simp_all add: callable_attr_def getattr_def TestB_def TestC_def)
  have b: "fn_setup \<noteq> fn_teardown" by (simp add: fn_setup_def fn_teardown_def)
  show ?thesis
    using tearDown_hook_forwards_to_setup_method [of TestB "Method fn_setup"]
      tearDown_hook_forwards_to_setup_method [of TestC "Method fn_setup"] a b
    by (simp add: factory_tearDown)
qed

text \<open>Calling either closure of a plain class whose hook is a function of the class body
  raises: the hook was read from the class as an unbound method.\<close>

lemma closure_of_method_raises:
  "call (closure n l (Method g)) = OtherException ''TypeError''"
  by (simp add: closure_def)

lemma transport_at_eq: "transport_at a nm h = h(a := transport nm (h a))"
  by (simp add: transport_at_def transport_def)

lemma fold_transport_at: "fold (transport_at a) xs h = h(a := fold transport xs (h a))"
  by (induction xs arbitrary: h) (simp_all add: transport_at_eq)

lemma capabilities_eq:
  "capabilities = [''testmethod'', ''lineno'', ''filename'', ''module'', ''classname'',
                   ''methodname'', ''run'']"
  by (simp add: capabilities_def testcase_factory_def AppTestCase_def overridden_methods_def)

lemma loadTestCaseFromUnittest_fields:
  "cname (loadTestCaseFromUnittest u) = cname u"
  "is_unittest (loadTestCaseFromUnittest u) = is_unittest u"
  "inherited (loadTestCaseFromUnittest u) = inherited u"
  "map_of (own (loadTestCaseFromUnittest u)) =
     (map_of (own u))(''testmethod'' \<mapsto> Prop ''testmethod'' (PObject ''testmethod'' True),
        ''lineno'' \<mapsto> Prop ''lineno'' (PObject ''lineno'' True),
        ''filename'' \<mapsto> Prop ''filename'' (PObject ''filename'' True),
        ''module'' \<mapsto> Prop ''module'' (PObject ''module'' True),
        ''classname'' \<mapsto> Prop ''classname'' (PObject ''classname'' True),
        ''methodname'' \<mapsto> Prop ''methodname'' (PObject ''methodname'' True),
        ''run'' \<mapsto> Method (PyFunc ''run'' ''cli/test.py'' 81 ''test'' None (Opaque Returns)))"
  by (simp_all add: loadTestCaseFromUnittest_def testcase_factory_def AppTestCase_def
      transport_def overridden_methods_def setattr_fields)

text \<open>
  C10. The native-case adapter returns the reference it was given. In the store only
  the object behind that reference changes; it keeps its name, its bases and every member
  that is not a capability, and its capability members (the properties of the factory and
  \<^verbatim>\<open>run\<close>) are the factory's.
\<close>

theorem native_class_mutated_in_place:
  "fst (loadTestCaseFromUnittest_ref h a) = a
   \<and> (\<forall>b. b \<noteq> a \<longrightarrow> snd (loadTestCaseFromUnittest_ref h a) b = h b)
   \<and> cname (snd (loadTestCaseFromUnittest_ref h a) a) = cname (h a)
   \<and> is_unittest (snd (loadTestCaseFromUnittest_ref h a) a) = is_unittest (h a)
   \<and> inherited (snd (loadTestCaseFromUnittest_ref h a) a) = inherited (h a)
   \<and> (\<forall>n. n \<in> set capabilities \<longrightarrow>
         map_of (own (snd (loadTestCaseFromUnittest_ref h a) a)) n
           = map_of (own testcase_factory) n)
   \<and> (\<forall>n. n \<notin> set capabilities \<longrightarrow>
         map_of (own (snd (loadTestCaseFromUnittest_ref h a) a)) n = map_of (own (h a)) n)"
proof -
  have r: "snd (loadTestCaseFromUnittest_ref h a) = h(a := loadTestCaseFromUnittest (h a))"
    by (simp add: loadTestCaseFromUnittest_ref_def fold_transport_at loadTestCaseFromUnittest_def)
  have f: "\<forall>n. n \<in> set capabilities \<longrightarrow>
         map_of (own (loadTestCaseFromUnittest (h a))) n = map_of (own testcase_factory) n"
    by (auto simp: capabilities_eq loadTestCaseFromUnittest_fields testcase_factory_def
        AppTestCase_def)
  have g: "\<forall>n. n \<notin> set capabilities \<longrightarrow>
         map_of (own (loadTestCaseFromUnittest (h a))) n = map_of (own (h a)) n"
    by (auto simp: capabilities_eq loadTestCaseFromUnittest_fields)
  show ?thesis using f g
    by (simp add: r loadTestCaseFromUnittest_fields) (simp add: loadTestCaseFromUnittest_ref_def)
qed

text \<open>A store with a native class at reference 0, which defines its own \<^verbatim>\<open>run\<close>, and
  another class elsewhere.\<close>

theorem native_class_mutated_in_place_witness:
  "fst (loadTestCaseFromUnittest_ref (\<lambda>i. if i = 0 then NativeCase else TestB) 0) = 0
   \<and> snd (loadTestCaseFromUnittest_ref (\<lambda>i. if i = 0 then NativeCase else TestB) 0) 1 = TestB
   \<and> cname (snd (loadTestCaseFromUnittest_ref (\<lambda>i. if i = 0 then NativeCase else TestB) 0) 0)
       = ''NativeCase''
   \<and> map_of (own (snd (loadTestCaseFromUnittest_ref (\<lambda>i. if i = 0 then NativeCase else TestB) 0) 0))
        ''run''
       = Some (Method (PyFunc ''run'' ''cli/test.py'' 81 ''test'' None (Opaque Returns)))
   \<and> map_of (own (snd (loadTestCaseFromUnittest_ref (\<lambda>i. if i = 0 then NativeCase else TestB) 0) 0))
        ''test_z''
       = Some (Method fn_test_z)"
  using native_class_mutated_in_place [of "\<lambda>i. if i = 0 then NativeCase else TestB" 0]
  by (simp add: capabilities_eq NativeCase_def testcase_factory_def AppTestCase_def)

text \<open>Loading one class gives a Suite when its test attributes, and its \<^verbatim>\<open>runTest\<close>
  if it has one, are functions. The Cases of the class are then in source order, and so
  is every per-class Suite of what discovery returns: the sort in
  \<^verbatim>\<open>getTestCaseNames\<close> does its work, within one class.\<close>

lemma per_class_suite_in_source_order:
  assumes "tests_are_functions c"
    and "hasattr c ''runTest'' \<longrightarrow> (\<exists>m f. getattr c ''runTest'' = Some m \<and> func_of m = Some f)"
  shows "\<exists>t. loadTestsFromTestCase c = Inr t \<and> source_ordered (cases_of t)"
  using loadTestsFromTestCase_returns [OF assms] loadTestsFromTestCase_ordered [of c] by blast

text \<open>
  C1. What discovery does on the directory \<^verbatim>\<open>/t\<close>, whose one candidate
  \<^verbatim>\<open>test_a.py\<close> defines the functions \<open>test_one\<close> (line 5) and \<open>test_two\<close> (line 10)
  and the plain class \<open>TestB\<close> with \<open>test_z\<close> (line 20) and \<open>test_y\<close> (line 24). The
  Cases of the class come first, then one Suite per function: the Suite is \<open>test_z\<close>,
  \<open>test_y\<close>, \<open>test_one\<close>, \<open>test_two\<close>, so within the one file line 24 precedes line 5,
  and the Suite is not in source order.
\<close>

theorem discovered_suite_not_in_source_order:
  "(case fst (loadTestsFromDirectory importer_a ''/t'' walk_a app0) of
      Inl e \<Rightarrow> False
    | Inr found \<Rightarrow>
        map (\<lambda>c. (filename c, methodname c, lineno c)) (cases_of found)
          = [(''/t/test_a.py'', ''test_z'', 20), (''/t/test_a.py'', ''test_y'', 24),
             (''/t/test_a.py'', ''test_one'', 5), (''/t/test_a.py'', ''test_two'', 10)]
        \<and> \<not> source_ordered (cases_of found))"
  by code_simp

end
